theory Spec2Isabelle
  imports Main
begin

section \<open>noaa-hrrr: forecast hour sets, cycle types and template expansion\<close>

text \<open>
  A shallow embedding of \<^verbatim>\<open>src/stactools/noaa_hrrr/constants.py\<close>.

  Python \<^verbatim>\<open>int\<close> is \<^typ>\<open>int\<close>.  A \<^verbatim>\<open>str\<close> is a \<^typ>\<open>string\<close>, each
  \<^typ>\<open>char\<close> being the code point of one character, so the texts of the model are
  the texts of code points below 256; the character classes of the patterns are the
  Unicode-aware ones of a \<^verbatim>\<open>str\<close> pattern, restricted to these code points.  A
  raised exception is the \<open>Inl\<close> side of a sum.  The interpreter's configurable limit
  on the number of digits in int/str conversions is not part of the model.
\<close>

subsection \<open>Exceptions\<close>

datatype error =
    ValueError string
  | KeyError
  | AssertionError
  | OverflowError

subsection \<open>Text helpers: \<^verbatim>\<open>str(int)\<close>, \<^verbatim>\<open>int(str)\<close>, \<^verbatim>\<open>replace\<close>, \<^verbatim>\<open>split\<close>\<close>

definition digit_chars :: string where
  "digit_chars = ''0123456789''"

definition is_digit :: "char \<Rightarrow> bool" where
  "is_digit c = (c \<in> set digit_chars)"

text \<open>
  \<^verbatim>\<open>\d\<close> matches the decimal digits, which below 256 are \<^verbatim>\<open>0\<close> to \<^verbatim>\<open>9\<close>.
  \<^verbatim>\<open>\w\<close> matches the underscore and every character that is alphabetic, decimal,
  a digit or numeric: below 256 these are the ASCII letters and digits, the two ordinal
  indicators (170, 186), the superscript digits (178, 179, 185), the micro sign (181),
  the three vulgar fractions (188 to 190) and the accented letters (192 to 255 without
  the multiplication sign 215 and the division sign 247).
\<close>

definition is_word :: "char \<Rightarrow> bool" where
  "is_word c =
     (let n = (of_char c :: nat) in
        (48 \<le> n \<and> n \<le> 57) \<or> (65 \<le> n \<and> n \<le> 90) \<or> n = 95 \<or> (97 \<le> n \<and> n \<le> 122)
      \<or> n \<in> set [170, 178, 179, 181, 185, 186, 188, 189, 190]
      \<or> (192 \<le> n \<and> n \<le> 214) \<or> (216 \<le> n \<and> n \<le> 246) \<or> 248 \<le> n)"

definition newline :: char where
  "newline = CHR 0x0A"

definition not_newline :: "char \<Rightarrow> bool" where
  "not_newline c = (c \<noteq> newline)"

text \<open>\<^verbatim>\<open>str(n)\<close> for a natural number, most significant digit first.\<close>

fun str_nat :: "nat \<Rightarrow> string" where
  "str_nat n =
     (if n < 10 then [digit_chars ! n]
      else str_nat (n div 10) @ [digit_chars ! (n mod 10)])"

declare str_nat.simps [simp del]

text \<open>\<^verbatim>\<open>str(i)\<close>, which is also what \<^verbatim>\<open>f"{i}"\<close> renders.\<close>

definition str_int :: "int \<Rightarrow> string" where
  "str_int i = (if i < 0 then CHR ''-'' # str_nat (nat (- i)) else str_nat (nat i))"

definition digit_val :: "char \<Rightarrow> int" where
  "digit_val c = int (of_char c) - 48"

text \<open>
  \<^verbatim>\<open>int(s)\<close>.  The source applies it to \<^verbatim>\<open>\d+\<close> groups and to the pieces of the
  forecast-hour-set names only, so the model accepts exactly the non-empty digit
  strings; everything else is the \<^verbatim>\<open>ValueError\<close> of a failed conversion.
\<close>

definition int_of_digits :: "string \<Rightarrow> int" where
  "int_of_digits s = foldl (\<lambda>acc c. 10 * acc + digit_val c) 0 s"

definition py_int :: "string \<Rightarrow> error + int" where
  "py_int s =
     (if s \<noteq> [] \<and> list_all is_digit s
      then Inr (int_of_digits s)
      else Inl (ValueError (''invalid literal for int() with base 10: '' @ s)))"

text \<open>\<^verbatim>\<open>s.replace("fh", new)\<close>: left to right, non-overlapping.\<close>

fun replace_fh :: "string \<Rightarrow> string \<Rightarrow> string" where
  "replace_fh new [] = []"
| "replace_fh new [c] = [c]"
| "replace_fh new (c # d # cs) =
     (if [c, d] = ''fh'' then new @ replace_fh new cs else c # replace_fh new (d # cs))"

text \<open>\<^verbatim>\<open>s.split(sep)\<close> for a one-character separator.\<close>

fun split :: "char \<Rightarrow> string \<Rightarrow> string list" where
  "split sep [] = [[]]"
| "split sep (c # cs) =
     (if c = sep then [] # split sep cs
      else (case split sep cs of [] \<Rightarrow> [[c]] | w # ws \<Rightarrow> (c # w) # ws))"

text \<open>A list comprehension whose body may raise: the first exception ends it.\<close>

fun mapM :: "('a \<Rightarrow> error + 'b) \<Rightarrow> 'a list \<Rightarrow> error + 'b list" where
  "mapM f [] = Inr []"
| "mapM f (x # xs) =
     (case f x of
        Inl e \<Rightarrow> Inl e
      | Inr y \<Rightarrow> (case mapM f xs of Inl e \<Rightarrow> Inl e | Inr ys \<Rightarrow> Inr (y # ys)))"

subsection \<open>Enumerations\<close>

datatype Region = conus | alaska

datatype Product = pressure | native | surface | sub_hourly

datatype ForecastHourSet = FH00 | FH01_18 | FH00_01 | FH02_48

text \<open>The \<^verbatim>\<open>.value\<close> of a forecast hour set.\<close>

fun fhs_value :: "ForecastHourSet \<Rightarrow> string" where
  "fhs_value FH00 = ''fh00''"
| "fhs_value FH01_18 = ''fh01-18''"
| "fhs_value FH00_01 = ''fh00-01''"
| "fhs_value FH02_48 = ''fh02-48''"

subsection \<open>ForecastHourSet\<close>

definition from_forecast_hour_and_product :: "int \<Rightarrow> Product \<Rightarrow> error + ForecastHourSet" where
  "from_forecast_hour_and_product forecast_hour product =
     (if \<not> (0 \<le> forecast_hour \<and> forecast_hour \<le> 48)
        then Inl (ValueError ''integer must within 0-48'')
      else if product = sub_hourly
        then Inr (if forecast_hour = 0 then FH00 else FH01_18)
      else Inr (if forecast_hour < 2 then FH00_01 else FH02_48))"

text \<open>
  The generator is modelled by the list of the values it yields; \<^verbatim>\<open>range(a, b + 1)\<close>
  is \<open>[a..b]\<close>.
\<close>

definition generate_forecast_hours :: "ForecastHourSet \<Rightarrow> error + int list" where
  "generate_forecast_hours self =
     (case mapM py_int (split (CHR ''-'') (replace_fh [] (fhs_value self))) of
        Inl e \<Rightarrow> Inl e
      | Inr forecast_hour_range \<Rightarrow>
          (case forecast_hour_range of
             [a] \<Rightarrow> Inr [a]
           | [a, b] \<Rightarrow> Inr [a..b]
           | _ \<Rightarrow> Inl AssertionError))"

subsection \<open>ForecastCycleType\<close>

definition EXTENDED_FORECAST_MAX_HOUR :: int where
  "EXTENDED_FORECAST_MAX_HOUR = 48"

definition STANDARD_FORECAST_MAX_HOUR :: int where
  "STANDARD_FORECAST_MAX_HOUR = 18"

record ForecastCycleType =
  type :: string
  max_forecast_hour :: int

text \<open>The dataclass constructor followed by \<^verbatim>\<open>__post_init__\<close>.\<close>

definition ForecastCycleType_init :: "string \<Rightarrow> error + ForecastCycleType" where
  "ForecastCycleType_init t =
     (if t \<notin> set [''standard'', ''extended'']
        then Inl (ValueError ''Invalid forecast cycle type'')
      else Inr \<lparr>type = t,
                max_forecast_hour =
                  (if t = ''standard'' then STANDARD_FORECAST_MAX_HOUR
                   else EXTENDED_FORECAST_MAX_HOUR)\<rparr>)"

text \<open>Of the reference datetime only its \<^verbatim>\<open>hour\<close> field is read.\<close>

record datetime =
  year :: int
  month :: int
  day :: int
  hour :: int

definition from_timestamp :: "datetime \<Rightarrow> error + ForecastCycleType" where
  "from_timestamp reference_datetime =
     (let extended = (hour reference_datetime mod 6 = 0)
      in ForecastCycleType_init (if extended then ''extended'' else ''standard''))"

definition validate_forecast_hour :: "ForecastCycleType \<Rightarrow> int \<Rightarrow> error + unit" where
  "validate_forecast_hour self forecast_hour =
     (let valid = (0 \<le> forecast_hour \<and> forecast_hour \<le> max_forecast_hour self)
      in if \<not> valid
         then Inl (ValueError
                (''The provided forecast_hour ('' @ str_int forecast_hour
                 @ '') is not compatible with the forecast cycle type (''
                 @ type self @ '')''))
         else Inr ())"

subsection \<open>Regular expressions\<close>

text \<open>
  \<^verbatim>\<open>re.search\<close> is a backtracking matcher: a greedy repetition first takes as many
  characters as it can and gives them back one at a time while the rest of the pattern
  fails, and the search tries the start positions from left to right.  The matcher is
  written in continuation-passing style: the continuation is the rest of the pattern, it
  receives the text the group captured and the remaining input.
\<close>

fun first_some :: "('a \<Rightarrow> 'b option) \<Rightarrow> 'a list \<Rightarrow> 'b option" where
  "first_some f [] = None"
| "first_some f (x # xs) = (case f x of Some y \<Rightarrow> Some y | None \<Rightarrow> first_some f xs)"

text \<open>
  A greedy repetition of a character class, at least \<open>lo\<close> times: the candidate
  lengths run from the longest run of class characters down to \<open>lo\<close>.
\<close>

definition greedy ::
  "(char \<Rightarrow> bool) \<Rightarrow> nat \<Rightarrow> string \<Rightarrow> (string \<Rightarrow> string \<Rightarrow> 'a option) \<Rightarrow> 'a option" where
  "greedy P lo s k =
     first_some (\<lambda>n. k (take n s) (drop n s)) (rev [lo ..< Suc (length (takeWhile P s))])"

text \<open>A literal piece of the pattern.\<close>

definition lit :: "string \<Rightarrow> string \<Rightarrow> (string \<Rightarrow> 'a option) \<Rightarrow> 'a option" where
  "lit l s k = (if take (length l) s = l then k (drop (length l) s) else None)"

text \<open>The start positions, leftmost first; the empty rest of the text is the last one.\<close>

fun re_search :: "(string \<Rightarrow> 'a option) \<Rightarrow> string \<Rightarrow> 'a option" where
  "re_search m [] = m []"
| "re_search m (c # cs) = (case m (c # cs) of Some r \<Rightarrow> Some r | None \<Rightarrow> re_search m cs)"

text \<open>\<^verbatim>\<open>(\d+) (.*) fcst\<close> at a fixed start position, with its two groups.\<close>

definition match_fcst :: "string \<Rightarrow> (string \<times> string) option" where
  "match_fcst s =
     greedy is_digit 1 s (\<lambda>forecast_template_time s.
       lit '' '' s (\<lambda>s.
         greedy not_newline 0 s (\<lambda>time_unit s.
           lit '' fcst'' s (\<lambda>_. Some (forecast_template_time, time_unit)))))"

text \<open>\<^verbatim>\<open>(\d+)-(\d+) (\w+) (.*)\<close> at a fixed start position, with its four groups.\<close>

definition match_interval :: "string \<Rightarrow> (string \<times> string \<times> string \<times> string) option" where
  "match_interval s =
     greedy is_digit 1 s (\<lambda>template_start_time s.
       lit ''-'' s (\<lambda>s.
         greedy is_digit 1 s (\<lambda>template_end_time s.
           lit '' '' s (\<lambda>s.
             greedy is_word 1 s (\<lambda>time_unit s.
               lit '' '' s (\<lambda>s.
                 greedy not_newline 0 s (\<lambda>stat _.
                   Some (template_start_time, template_end_time, time_unit, stat))))))))"

text \<open>
  The texts in which the two searches find a match, as languages: somewhere in the text
  there is a run of digits, a space, a piece of one line and \<^verbatim>\<open> fcst\<close>; or two runs of
  digits with a hyphen between them, a space, a word and another space.
\<close>

definition contains_fcst :: "string \<Rightarrow> bool" where
  "contains_fcst t \<longleftrightarrow>
     (\<exists>pre n u post. t = pre @ n @ '' '' @ u @ '' fcst'' @ post
        \<and> n \<noteq> [] \<and> list_all is_digit n \<and> list_all not_newline u)"

definition contains_interval :: "string \<Rightarrow> bool" where
  "contains_interval t \<longleftrightarrow>
     (\<exists>pre n1 n2 w post. t = pre @ n1 @ ''-'' @ n2 @ '' '' @ w @ '' '' @ post
        \<and> n1 \<noteq> [] \<and> list_all is_digit n1 \<and> n2 \<noteq> [] \<and> list_all is_digit n2
        \<and> w \<noteq> [] \<and> list_all is_word w)"

text \<open>
  The shapes the specification gives to a whole template, read as widely as the words
  allow: a number, a space, any text and \<^verbatim>\<open> fcst\<close> at the end; two numbers with a
  hyphen between them, a space, any unit, a space and any statistic.
\<close>

definition single_instant_shape :: "string \<Rightarrow> bool" where
  "single_instant_shape t \<longleftrightarrow>
     (\<exists>n u. t = n @ '' '' @ u @ '' fcst'' \<and> n \<noteq> [] \<and> list_all is_digit n)"

definition interval_shape :: "string \<Rightarrow> bool" where
  "interval_shape t \<longleftrightarrow>
     (\<exists>n1 n2 u stat. t = n1 @ ''-'' @ n2 @ '' '' @ u @ '' '' @ stat
        \<and> n1 \<noteq> [] \<and> list_all is_digit n1 \<and> n2 \<noteq> [] \<and> list_all is_digit n2)"

text \<open>
  The templates of the three families: the text \<^verbatim>\<open>analysis\<close> and the texts in which
  one of the two searches finds a match.
\<close>

definition recognized :: "string \<Rightarrow> bool" where
  "recognized t \<longleftrightarrow> t = ''analysis'' \<or> contains_fcst t \<or> contains_interval t"

subsection \<open>Variable\<close>

text \<open>
  \<^verbatim>\<open>int(q)\<close> of the float \<^verbatim>\<open>forecast_hour / 24\<close>, for a forecast hour that is a
  multiple of 24 with quotient \<open>q\<close>: a double holds an integer up to \<open>2 ^ 53\<close> exactly
  and rounds a longer one to 53 significant bits, ties to even; a quotient beyond the
  range of a double is an \<^verbatim>\<open>OverflowError\<close>.
\<close>

fun bit_length :: "nat \<Rightarrow> nat" where
  "bit_length n = (if n = 0 then 0 else Suc (bit_length (n div 2)))"

declare bit_length.simps [simp del]

definition int_of_float_of_int :: "int \<Rightarrow> error + int" where
  "int_of_float_of_int q =
     (if \<bar>q\<bar> \<le> 2 ^ 53 then Inr q
      else
        let a = nat \<bar>q\<bar>;
            s = bit_length a - 53;
            m = a div 2 ^ s;
            r = a mod 2 ^ s;
            half = 2 ^ (s - 1);
            m' = (if r > half \<or> (r = half \<and> odd m) then m + 1 else m);
            v = m' * 2 ^ s
        in if v \<ge> 2 ^ 1024 then Inl OverflowError else Inr (sgn q * int v))"

record Variable =
  row_number :: int
  level_layer :: string
  parameter :: string
  forecast_valid :: string
  description :: string

text \<open>
  The \<^verbatim>\<open>if\<close>/\<^verbatim>\<open>elif\<close> chain of \<^verbatim>\<open>Variable.from_template\<close> that computes
  \<^verbatim>\<open>forecast_valid\<close>.
\<close>

definition forecast_valid_of :: "int \<Rightarrow> string \<Rightarrow> error + string" where
  "forecast_valid_of forecast_hour forecast_valid_template =
     (if forecast_valid_template = ''analysis'' then
        Inr (if forecast_hour = 0 then ''analysis''
             else str_int forecast_hour @ '' hour fcst'')
      else
        case re_search match_fcst forecast_valid_template of
          Some (forecast_template_time, time_unit) \<Rightarrow>
            (case (if time_unit = ''min''
                   then (case py_int forecast_template_time of
                           Inl e \<Rightarrow> Inl e
                         | Inr n \<Rightarrow> Inr (n + (forecast_hour - 1) * 60))
                   else Inr forecast_hour) of
               Inl e \<Rightarrow> Inl e
             | Inr forecast_time \<Rightarrow>
                 Inr (str_int forecast_time @ '' '' @ time_unit @ '' fcst''))
        | None \<Rightarrow>
            (case re_search match_interval forecast_valid_template of
               Some (template_start_time, template_end_time, time_unit, stat) \<Rightarrow>
                 (case (if time_unit = ''min''
                        then (case (py_int template_start_time, py_int template_end_time) of
                                (Inr a, Inr b) \<Rightarrow>
                                  Inr (a + (forecast_hour - 2) * 60,
                                       b + (forecast_hour - 2) * 60, time_unit)
                              | (Inl e, _) \<Rightarrow> Inl e
                              | (_, Inl e) \<Rightarrow> Inl e)
                        else
                          let end_time = forecast_hour;
                              start_time =
                                (if template_start_time = ''1'' then forecast_hour - 1 else 0)
                          in if forecast_hour mod 24 = 0
                             then (case int_of_float_of_int (forecast_hour div 24) of
                                     Inl e \<Rightarrow> Inl e
                                   | Inr d \<Rightarrow> Inr (0, d, ''day''))
                             else Inr (start_time, end_time, ''hour'')) of
                    Inl e \<Rightarrow> Inl e
                  | Inr (start_time, end_time, time_unit) \<Rightarrow>
                      Inr (str_int start_time @ ''-'' @ str_int end_time
                           @ '' '' @ time_unit @ '' '' @ stat))
             | None \<Rightarrow>
                 Inl (ValueError
                   (forecast_valid_template
                    @ '' could not be parsed into a forecast_valid string''))))"

definition from_template ::
  "int \<Rightarrow> string \<Rightarrow> int \<Rightarrow> string \<Rightarrow> string \<Rightarrow> string \<Rightarrow> error + Variable" where
  "from_template forecast_hour forecast_valid_template row_number' level_layer'
       parameter' description' =
     (case forecast_valid_of forecast_hour forecast_valid_template of
        Inl e \<Rightarrow> Inl e
      | Inr forecast_valid' \<Rightarrow>
          Inr \<lparr>row_number = row_number', level_layer = level_layer',
               parameter = parameter', forecast_valid = forecast_valid',
               description = description'\<rparr>)"

subsection \<open>The template inventory and CycleRunConfig\<close>

text \<open>The forecast hour sets each product is published in.\<close>

definition PRODUCT_FORECAST_HOUR_SETS :: "Product \<Rightarrow> ForecastHourSet list" where
  "PRODUCT_FORECAST_HOUR_SETS p =
     (case p of
        surface \<Rightarrow> [FH00_01, FH02_48]
      | pressure \<Rightarrow> [FH00_01, FH02_48]
      | native \<Rightarrow> [FH00_01, FH02_48]
      | sub_hourly \<Rightarrow> [FH00, FH01_18])"

text \<open>
  One record of an inventory JSON file.  The files themselves are packaged data, so
  \<^verbatim>\<open>TEMPLATE_INVENTORY\<close> is a parameter of the model: a dictionary from
  (region, product, forecast hour set) to the list of template entries.
\<close>

record TemplateEntry =
  t_row_number :: int
  t_level_layer :: string
  t_parameter :: string
  t_forecast_valid_template :: string
  t_description :: string

type_synonym inventory = "Region \<times> Product \<times> ForecastHourSet \<rightharpoonup> TemplateEntry list"

text \<open>\<^verbatim>\<open>Variable.from_template(forecast_hour=forecast_hour, **template)\<close>.\<close>

definition expand :: "int \<Rightarrow> TemplateEntry \<Rightarrow> error + Variable" where
  "expand forecast_hour template =
     from_template forecast_hour (t_forecast_valid_template template)
       (t_row_number template) (t_level_layer template) (t_parameter template)
       (t_description template)"

text \<open>
  \<^verbatim>\<open>CycleRunConfig.__post_init__\<close>: the \<^verbatim>\<open>inventory\<close> dictionary, as the list of
  its (forecast hour, variables) items in insertion order.
\<close>

definition CycleRunConfig_init ::
  "inventory \<Rightarrow> Region \<Rightarrow> Product \<Rightarrow> ForecastHourSet \<Rightarrow> error + (int \<times> Variable list) list" where
  "CycleRunConfig_init TEMPLATE_INVENTORY region product forecast_hour_set =
     (case generate_forecast_hours forecast_hour_set of
        Inl e \<Rightarrow> Inl e
      | Inr hours \<Rightarrow>
          mapM (\<lambda>forecast_hour.
                  case TEMPLATE_INVENTORY (region, product, forecast_hour_set) of
                    None \<Rightarrow> Inl KeyError
                  | Some templates \<Rightarrow>
                      (case mapM (expand forecast_hour) templates of
                         Inl e \<Rightarrow> Inl e
                       | Inr variables \<Rightarrow> Inr (forecast_hour, variables)))
               hours)"


section \<open>Forecast hour sets\<close>

lemma generate_FH00: "generate_forecast_hours FH00 = Inr [0]"
  by code_simp

lemma generate_FH01_18: "generate_forecast_hours FH01_18 = Inr [1..18]"
  by code_simp

lemma generate_FH00_01: "generate_forecast_hours FH00_01 = Inr [0..1]"
  by code_simp

lemma generate_FH02_48: "generate_forecast_hours FH02_48 = Inr [2..48]"
  by code_simp

lemmas generate_simps = generate_FH00 generate_FH01_18 generate_FH00_01 generate_FH02_48

lemma hours_FH00:
  "\<exists>hs. generate_forecast_hours FH00 = Inr hs \<and> (h \<in> set hs \<longleftrightarrow> h = 0)"
  unfolding generate_FH00 by simp

lemma hours_FH01_18:
  "\<exists>hs. generate_forecast_hours FH01_18 = Inr hs \<and> (h \<in> set hs \<longleftrightarrow> 1 \<le> h \<and> h \<le> 18)"
  unfolding generate_FH01_18
  by (rule exI [of _ "[1..18]"]) (simp only: set_upto atLeastAtMost_iff simp_thms)

lemma hours_FH00_01:
  "\<exists>hs. generate_forecast_hours FH00_01 = Inr hs \<and> (h \<in> set hs \<longleftrightarrow> 0 \<le> h \<and> h \<le> 1)"
  unfolding generate_FH00_01
  by (rule exI [of _ "[0..1]"]) (simp only: set_upto atLeastAtMost_iff simp_thms)

lemma hours_FH02_48:
  "\<exists>hs. generate_forecast_hours FH02_48 = Inr hs \<and> (h \<in> set hs \<longleftrightarrow> 2 \<le> h \<and> h \<le> 48)"
  unfolding generate_FH02_48
  by (rule exI [of _ "[2..48]"]) (simp only: set_upto atLeastAtMost_iff simp_thms)

text \<open>
  C2, as amended.  For a forecast hour \<open>h\<close> in [0, 48] the selection is the one the
  claim gives (sub-hourly: FH00 at 0, else FH01-18; other products: FH00-01 below 2, else
  FH02-48), and the selected set is one of the product's sets.  For a product other than
  sub-hourly, and for sub-hourly up to hour 18, \<open>h\<close> is enumerated by the selected set
  and by no other set of the product.
\<close>

theorem forecast_hour_set_selection:
  assumes "0 \<le> h" and "h \<le> 48"
  shows "\<exists>s. from_forecast_hour_and_product h p = Inr s
            \<and> s = (if p = sub_hourly then (if h = 0 then FH00 else FH01_18)
                   else (if h < 2 then FH00_01 else FH02_48))
            \<and> s \<in> set (PRODUCT_FORECAST_HOUR_SETS p)
            \<and> (p \<noteq> sub_hourly \<or> h \<le> 18 \<longrightarrow>
                 (\<forall>s' \<in> set (PRODUCT_FORECAST_HOUR_SETS p).
                    \<exists>hs. generate_forecast_hours s' = Inr hs \<and> (h \<in> set hs \<longleftrightarrow> s' = s)))"
proof -
  obtain a b c d where hs:
    "generate_forecast_hours FH00 = Inr a" "h \<in> set a \<longleftrightarrow> h = 0"
    "generate_forecast_hours FH01_18 = Inr b" "h \<in> set b \<longleftrightarrow> 1 \<le> h \<and> h \<le> 18"
    "generate_forecast_hours FH00_01 = Inr c" "h \<in> set c \<longleftrightarrow> 0 \<le> h \<and> h \<le> 1"
    "generate_forecast_hours FH02_48 = Inr d" "h \<in> set d \<longleftrightarrow> 2 \<le> h \<and> h \<le> 48"
    using hours_FH00 [of h] hours_FH01_18 [of h] hours_FH00_01 [of h] hours_FH02_48 [of h]
    by blast
  show ?thesis
    using assms hs
    by (cases p)
      (auto simp: from_forecast_hour_and_product_def PRODUCT_FORECAST_HOUR_SETS_def)
qed

theorem forecast_hour_set_selection_witness:
  "from_forecast_hour_and_product 12 sub_hourly = Inr FH01_18
   \<and> generate_forecast_hours FH01_18 = Inr [1..18] \<and> (12::int) \<in> set [1..18]
   \<and> generate_forecast_hours FH00 = Inr [0] \<and> (12::int) \<notin> set [0]"
  using forecast_hour_set_selection [of 12 sub_hourly]
  by (simp add: PRODUCT_FORECAST_HOUR_SETS_def generate_simps
      from_forecast_hour_and_product_def)

text \<open>
  C2, as stated, fails for the sub-hourly product from hour 19 on: FH01-18 is selected,
  and it enumerates the hours 1 to 18 only.
\<close>

theorem sub_hourly_hour_19_not_enumerated:
  "from_forecast_hour_and_product 19 sub_hourly = Inr FH01_18
   \<and> generate_forecast_hours FH01_18 = Inr [1..18]
   \<and> (19::int) \<notin> set [1..18]"
  by (simp add: from_forecast_hour_and_product_def generate_simps)

text \<open>
  C8.  \<^verbatim>\<open>from_forecast_hour_and_product\<close> raises exactly when the forecast hour is
  outside [0, 48], for any product, and what it raises then is the range error.
\<close>

theorem range_error_iff:
  "(from_forecast_hour_and_product h p = Inl (ValueError ''integer must within 0-48'')
      \<longleftrightarrow> h < 0 \<or> 48 < h)
   \<and> ((\<exists>e. from_forecast_hour_and_product h p = Inl e) \<longleftrightarrow> h < 0 \<or> 48 < h)"
  by (auto simp: from_forecast_hour_and_product_def)

theorem range_error_iff_witness:
  "from_forecast_hour_and_product 49 surface = Inl (ValueError ''integer must within 0-48'')
   \<and> from_forecast_hour_and_product (- 1) sub_hourly
       = Inl (ValueError ''integer must within 0-48'')
   \<and> from_forecast_hour_and_product 48 surface = Inr FH02_48"
  using range_error_iff [of 49 surface] range_error_iff [of "- 1" sub_hourly]
    range_error_iff [of 48 surface]
  by (simp add: from_forecast_hour_and_product_def)

section \<open>Forecast cycle types\<close>

text \<open>
  C6.  For a run hour in [0, 23], \<^verbatim>\<open>from_timestamp\<close> builds the extended cycle type
  (maximum 48) when the hour is a multiple of 6 and the standard one (maximum 18)
  otherwise.
\<close>

theorem from_timestamp_classification:
  assumes "0 \<le> hour d" and "hour d \<le> 23"
  shows "from_timestamp d =
           Inr \<lparr>type = (if hour d mod 6 = 0 then ''extended'' else ''standard''),
                max_forecast_hour = (if hour d mod 6 = 0 then 48 else 18)\<rparr>"
  by (simp add: from_timestamp_def ForecastCycleType_init_def
      STANDARD_FORECAST_MAX_HOUR_def EXTENDED_FORECAST_MAX_HOUR_def)

theorem from_timestamp_classification_witness:
  "from_timestamp \<lparr>year = 2024, month = 5, day = 1, hour = 18\<rparr>
     = Inr \<lparr>type = ''extended'', max_forecast_hour = 48\<rparr>
   \<and> from_timestamp \<lparr>year = 2024, month = 5, day = 1, hour = 3\<rparr>
     = Inr \<lparr>type = ''standard'', max_forecast_hour = 18\<rparr>"
  using from_timestamp_classification [of "\<lparr>year = 2024, month = 5, day = 1, hour = 18\<rparr>"]
    from_timestamp_classification [of "\<lparr>year = 2024, month = 5, day = 1, hour = 3\<rparr>"]
  by simp

text \<open>
  C7.  Both cycle types can be constructed; \<^verbatim>\<open>validate_forecast_hour\<close> succeeds on
  the standard one exactly for the hours 0 to 18 and on the extended one exactly for the
  hours 0 to 48, and raises the cycle-bound error for every other hour.
\<close>

theorem validate_forecast_hour_bounds:
  "\<exists>standard extended.
     ForecastCycleType_init ''standard'' = Inr standard
   \<and> ForecastCycleType_init ''extended'' = Inr extended
   \<and> validate_forecast_hour standard fh =
       (if 0 \<le> fh \<and> fh \<le> 18 then Inr ()
        else Inl (ValueError (''The provided forecast_hour ('' @ str_int fh
               @ '') is not compatible with the forecast cycle type (standard)'')))
   \<and> validate_forecast_hour extended fh =
       (if 0 \<le> fh \<and> fh \<le> 48 then Inr ()
        else Inl (ValueError (''The provided forecast_hour ('' @ str_int fh
               @ '') is not compatible with the forecast cycle type (extended)'')))"
  by (simp add: ForecastCycleType_init_def validate_forecast_hour_def
      STANDARD_FORECAST_MAX_HOUR_def EXTENDED_FORECAST_MAX_HOUR_def)

theorem validate_forecast_hour_bounds_witness:
  "validate_forecast_hour \<lparr>type = ''standard'', max_forecast_hour = 18\<rparr> 18 = Inr ()
   \<and> validate_forecast_hour \<lparr>type = ''standard'', max_forecast_hour = 18\<rparr> 19 =
       Inl (ValueError ''The provided forecast_hour (19) is not compatible with the forecast cycle type (standard)'')
   \<and> validate_forecast_hour \<lparr>type = ''extended'', max_forecast_hour = 48\<rparr> 48 = Inr ()
   \<and> validate_forecast_hour \<lparr>type = ''extended'', max_forecast_hour = 48\<rparr> 49 =
       Inl (ValueError ''The provided forecast_hour (49) is not compatible with the forecast cycle type (extended)'')"
  using validate_forecast_hour_bounds [of 18] validate_forecast_hour_bounds [of 19]
    validate_forecast_hour_bounds [of 48] validate_forecast_hour_bounds [of 49]
  by (simp add: ForecastCycleType_init_def STANDARD_FORECAST_MAX_HOUR_def
      EXTENDED_FORECAST_MAX_HOUR_def str_int_def str_nat.simps digit_chars_def)

section \<open>The backtracking matcher\<close>

lemma first_some_None_iff: "first_some f xs = None \<longleftrightarrow> (\<forall>x \<in> set xs. f x = None)"
  by (induction xs) (auto split: option.splits)

lemma first_some_append:
  "first_some f (xs @ ys) =
     (case first_some f xs of Some y \<Rightarrow> Some y | None \<Rightarrow> first_some f ys)"
  by (induction xs) (auto split: option.splits)

lemma first_some_SomeD: "first_some f xs = Some y \<Longrightarrow> \<exists>x \<in> set xs. f x = Some y"
  by (induction xs) (auto split: option.splits)

lemma first_some_rev_upt:
  assumes "lo \<le> j" and "j < u" and "f j = Some y"
    and "\<And>n. j < n \<Longrightarrow> n < u \<Longrightarrow> f n = None"
  shows "first_some f (rev [lo ..< u]) = Some y"
  using assms
proof (induction u)
  case 0
  then show ?case by simp
next
  case (Suc u)
  show ?case
  proof (cases "j = u")
    case True
    with Suc.prems show ?thesis by simp
  next
    case False
    with Suc.prems have "j < u" by simp
    moreover from this Suc.prems have "f u = None" by simp
    ultimately show ?thesis
      using Suc.IH Suc.prems by simp
  qed
qed

lemma greedy_None:
  assumes "\<And>n. lo \<le> n \<Longrightarrow> n \<le> length (takeWhile P s) \<Longrightarrow> k (take n s) (drop n s) = None"
  shows "greedy P lo s k = None"
  unfolding greedy_def first_some_None_iff
  using assms by (auto simp: less_Suc_eq_le)

lemma greedy_SomeD:
  assumes "greedy P lo s k = Some y"
  shows "\<exists>n. lo \<le> n \<and> n \<le> length (takeWhile P s) \<and> k (take n s) (drop n s) = Some y"
proof -
  from assms obtain n where "n \<in> set (rev [lo ..< Suc (length (takeWhile P s))])"
    and "k (take n s) (drop n s) = Some y"
    unfolding greedy_def by (blast dest: first_some_SomeD)
  then show ?thesis by (auto simp: less_Suc_eq_le simp del: upt_Suc)
qed

lemma greedy_pick:
  assumes "lo \<le> j" and "j \<le> length (takeWhile P s)"
    and "k (take j s) (drop j s) = Some y"
    and "\<And>n. j < n \<Longrightarrow> n \<le> length (takeWhile P s) \<Longrightarrow> k (take n s) (drop n s) = None"
  shows "greedy P lo s k = Some y"
  unfolding greedy_def
  by (rule first_some_rev_upt [where j = j]) (use assms in \<open>auto simp: less_Suc_eq_le\<close>)

lemma greedy_not_None:
  assumes "lo \<le> j" and "j \<le> length (takeWhile P s)"
    and "k (take j s) (drop j s) \<noteq> None"
  shows "greedy P lo s k \<noteq> None"
proof
  assume "greedy P lo s k = None"
  then have none: "\<forall>n \<in> set (rev [lo ..< Suc (length (takeWhile P s))]). k (take n s) (drop n s) = None"
    unfolding greedy_def first_some_None_iff .
  have "j \<in> set (rev [lo ..< Suc (length (takeWhile P s))])"
    using assms(1,2) by (simp del: upt_Suc)
  with none have "k (take j s) (drop j s) = None" by (rule bspec)
  with assms(3) show False by simp
qed

text \<open>
  A literal that starts with a character outside the class can only follow the whole
  run: giving back a character of the run leaves a class character in front of it.
\<close>

lemma lit_Cons: "lit (c # l) s k = (case s of [] \<Rightarrow> None | d # r \<Rightarrow> if d = c then lit l r k else None)"
  by (cases s) (auto simp: lit_def)

lemma lit_Nil: "lit [] s k = k s"
  by (simp add: lit_def)

lemma greedy_lit:
  assumes "\<not> P c"
  shows "greedy P lo s (\<lambda>a r. lit (c # l) r (k a)) =
           (if lo \<le> length (takeWhile P s)
            then lit (c # l) (dropWhile P s) (k (takeWhile P s)) else None)"
proof (cases "lo \<le> length (takeWhile P s)")
  case False
  then show ?thesis by (simp add: greedy_None)
next
  case True
  let ?m = "length (takeWhile P s)"
  have tk: "take ?m s = takeWhile P s" and dr: "drop ?m s = dropWhile P s"
    by (simp_all add: takeWhile_eq_take [symmetric] dropWhile_eq_drop [symmetric])
  have below: "lit (c # l) (drop n s) (k (take n s)) = None" if "n < ?m" for n
  proof -
    have "n < length s" using that length_takeWhile_le [of P s] by (meson less_le_trans)
    then have "drop n s = s ! n # drop (Suc n) s" by (simp add: Cons_nth_drop_Suc)
    moreover have "P (s ! n)"
      using that nth_length_takeWhile takeWhile_nth
      by (metis nth_mem set_takeWhileD)
    ultimately show ?thesis using assms by (auto simp: lit_Cons)
  qed
  show ?thesis
  proof (cases "lit (c # l) (dropWhile P s) (k (takeWhile P s))")
    case None
    have "greedy P lo s (\<lambda>a r. lit (c # l) r (k a)) = None"
    proof (rule greedy_None)
      fix n assume "lo \<le> n" "n \<le> ?m"
      then show "lit (c # l) (drop n s) (k (take n s)) = None"
        using below [of n] None tk dr by (cases "n = ?m") auto
    qed
    with None True show ?thesis by simp
  next
    case (Some y)
    have "greedy P lo s (\<lambda>a r. lit (c # l) r (k a)) = Some y"
      by (rule greedy_pick [where j = ?m]) (use True Some tk dr in auto)
    with Some True show ?thesis by simp
  qed
qed

lemma greedy_last:
  "greedy P lo s (\<lambda>a _. Some (f a)) =
     (if lo \<le> length (takeWhile P s) then Some (f (takeWhile P s)) else None)"
proof (cases "lo \<le> length (takeWhile P s)")
  case False
  then show ?thesis by (simp add: greedy_None)
next
  case True
  have "greedy P lo s (\<lambda>a _. Some (f a)) = Some (f (take (length (takeWhile P s)) s))"
    by (rule greedy_pick [where j = "length (takeWhile P s)"]) (use True in auto)
  then show ?thesis
    using True by (simp add: takeWhile_eq_take [symmetric])
qed

lemma not_digit_space [simp]: "\<not> is_digit CHR '' ''" and not_digit_minus [simp]: "\<not> is_digit CHR ''-''"
  and not_word_space [simp]: "\<not> is_word CHR '' ''"
  by (simp_all add: is_digit_def digit_chars_def is_word_def)

lemma if_flip: "(if \<not> b then x else y) = (if b then y else x)"
  by simp

text \<open>The two patterns without the backtracking that cannot succeed.\<close>

lemma match_fcst_eq:
  "match_fcst s =
     (if takeWhile is_digit s = [] then None
      else lit '' '' (dropWhile is_digit s) (\<lambda>r.
             greedy not_newline 0 r (\<lambda>u r'.
               lit '' fcst'' r' (\<lambda>_. Some (takeWhile is_digit s, u)))))"
  unfolding match_fcst_def
  by (subst greedy_lit) (auto simp: Suc_le_eq)

lemma match_interval_eq:
  "match_interval s =
     (if takeWhile is_digit s = [] then None
      else lit ''-'' (dropWhile is_digit s) (\<lambda>r.
        if takeWhile is_digit r = [] then None
        else lit '' '' (dropWhile is_digit r) (\<lambda>r'.
          if takeWhile is_word r' = [] then None
          else lit '' '' (dropWhile is_word r') (\<lambda>r''.
            Some (takeWhile is_digit s, takeWhile is_digit r, takeWhile is_word r',
                  takeWhile not_newline r'')))))"
  unfolding match_interval_def
  by (simp add: greedy_lit greedy_last Suc_le_eq if_flip cong: if_cong)

lemma takeWhile_run:
  "list_all P xs \<Longrightarrow> \<not> P c \<Longrightarrow> takeWhile P (xs @ c # ys) = xs"
  by (induction xs) auto

lemma dropWhile_run:
  "list_all P xs \<Longrightarrow> \<not> P c \<Longrightarrow> dropWhile P (xs @ c # ys) = c # ys"
  by (induction xs) auto

lemma takeWhile_all: "list_all P xs \<Longrightarrow> takeWhile P (xs @ ys) = xs @ takeWhile P ys"
  by (induction xs) auto

lemma lit_Cons_Cons: "lit (c # l) (d # r) k = (if d = c then lit l r k else None)"
  and lit_Cons_Nil: "lit (c # l) [] k = None"
  by (simp_all add: lit_Cons)

lemmas lit_step = lit_Cons_Cons lit_Cons_Nil lit_Nil

lemma lit_short: "length s < length l \<Longrightarrow> lit l s k = None"
  by (auto simp: lit_def)

lemma lit_self: "lit l (l @ s) k = k s"
  by (simp add: lit_def)

lemma not_newline_fcst [simp]: "list_all not_newline '' fcst''"
  by (simp add: not_newline_def newline_def)

lemma re_search_head: "m s = Some r \<Longrightarrow> re_search m s = Some r"
  by (cases s) simp_all

lemma re_search_SomeD:
  "re_search m s = Some r \<Longrightarrow> \<exists>pre suf. s = pre @ suf \<and> m suf = Some r"
proof (induction s)
  case Nil
  then show ?case by simp
next
  case (Cons c cs)
  show ?case
  proof (cases "m (c # cs)")
    case None
    with Cons obtain pre suf where "cs = pre @ suf" "m suf = Some r" by auto
    then have "c # cs = (c # pre) @ suf" by simp
    with \<open>m suf = Some r\<close> show ?thesis by blast
  next
    case (Some a)
    with Cons.prems have "m (c # cs) = Some r" by simp
    then show ?thesis by (metis append_Nil)
  qed
qed

lemma re_search_not_None: "m suf \<noteq> None \<Longrightarrow> re_search m (pre @ suf) \<noteq> None"
proof (induction pre)
  case Nil
  then show ?case by (cases suf) auto
next
  case (Cons c pre)
  then show ?case by (auto split: option.splits)
qed

text \<open>The single-instant pattern on a text of exactly the single-instant shape.\<close>

lemma greedy_unit_fcst:
  assumes "list_all not_newline u"
  shows "greedy not_newline 0 (u @ '' fcst'') (\<lambda>u' r. lit '' fcst'' r (\<lambda>_. Some (n, u')))
           = Some (n, u)"
proof (rule greedy_pick [where j = "length u"])
  show "0 \<le> length u" by simp
  show "length u \<le> length (takeWhile not_newline (u @ '' fcst''))"
    using assms by (simp add: takeWhile_all)
  show "lit '' fcst'' (drop (length u) (u @ '' fcst''))
          (\<lambda>_. Some (n, take (length u) (u @ '' fcst''))) = Some (n, u)"
    by (simp add: lit_def)
  fix k assume "length u < k"
  then show "lit '' fcst'' (drop k (u @ '' fcst''))
          (\<lambda>_. Some (n, take k (u @ '' fcst''))) = None"
    by (intro lit_short) simp
qed

lemma match_fcst_exact:
  assumes "n \<noteq> []" and "list_all is_digit n" and "list_all not_newline u"
  shows "match_fcst (n @ '' '' @ u @ '' fcst'') = Some (n, u)"
  using assms
  by (simp add: match_fcst_eq takeWhile_run dropWhile_run lit_step
      greedy_unit_fcst [simplified])

lemma search_fcst_exact:
  assumes "n \<noteq> []" and "list_all is_digit n" and "list_all not_newline u"
  shows "re_search match_fcst (n @ '' '' @ u @ '' fcst'') = Some (n, u)"
  by (rule re_search_head) (rule match_fcst_exact [OF assms])

text \<open>A run of digits that ends at a hyphen is no start of the single-instant pattern.\<close>

lemma search_fcst_skip:
  assumes "list_all is_digit n"
  shows "re_search match_fcst (n @ ''-'' @ s) = re_search match_fcst s"
  using assms
proof (induction n)
  case Nil
  then show ?case by (simp add: match_fcst_eq)
next
  case (Cons c n)
  then have "match_fcst ((c # n) @ ''-'' @ s) = None"
    using dropWhile_run [of is_digit "c # n" "CHR ''-''" s]
    by (simp add: match_fcst_eq lit_step)
  with Cons show ?case by simp
qed

text \<open>The interval pattern on a text of exactly the interval shape.\<close>

lemma match_interval_exact:
  assumes "n1 \<noteq> []" and "list_all is_digit n1" and "n2 \<noteq> []" and "list_all is_digit n2"
    and "w \<noteq> []" and "list_all is_word w" and "list_all not_newline st"
  shows "match_interval (n1 @ ''-'' @ n2 @ '' '' @ w @ '' '' @ st) = Some (n1, n2, w, st)"
  using assms
  by (simp add: match_interval_eq takeWhile_run dropWhile_run lit_step
      takeWhile_eq_all_conv [THEN iffD2] list_all_iff)

lemma search_interval_exact:
  assumes "n1 \<noteq> []" and "list_all is_digit n1" and "n2 \<noteq> []" and "list_all is_digit n2"
    and "w \<noteq> []" and "list_all is_word w" and "list_all not_newline st"
  shows "re_search match_interval (n1 @ ''-'' @ n2 @ '' '' @ w @ '' '' @ st)
           = Some (n1, n2, w, st)"
  by (rule re_search_head) (rule match_interval_exact [OF assms])

section \<open>The searches and the languages of the patterns\<close>

lemma lit_SomeD:
  assumes "lit l s k = Some y"
  shows "\<exists>post. s = l @ post \<and> k post = Some y"
proof -
  from assms have "take (length l) s = l" and "k (drop (length l) s) = Some y"
    by (simp_all add: lit_def split: if_splits)
  moreover have "s = take (length l) s @ drop (length l) s" by simp
  ultimately have "s = l @ drop (length l) s" by simp
  with \<open>k (drop (length l) s) = Some y\<close> show ?thesis by blast
qed

lemma take_within_run: "j \<le> length (takeWhile P xs) \<Longrightarrow> list_all P (take j xs)"
proof (induction xs arbitrary: j)
  case Nil
  then show ?case by simp
next
  case (Cons x xs)
  then show ?case by (cases j) (auto split: if_splits)
qed

lemma match_fcst_SomeD:
  assumes "match_fcst s = Some (n, u)"
  shows "\<exists>post. s = n @ '' '' @ u @ '' fcst'' @ post
           \<and> n \<noteq> [] \<and> list_all is_digit n \<and> list_all not_newline u"
proof -
  let ?n = "takeWhile is_digit s"
  from assms have ne: "?n \<noteq> []"
    unfolding match_fcst_eq by (simp split: if_splits)
  with assms have "lit '' '' (dropWhile is_digit s) (\<lambda>r.
             greedy not_newline 0 r (\<lambda>u r'.
               lit '' fcst'' r' (\<lambda>_. Some (?n, u)))) = Some (n, u)"
    unfolding match_fcst_eq by simp
  from lit_SomeD [OF this] obtain r where r: "dropWhile is_digit s = '' '' @ r"
    and g: "greedy not_newline 0 r (\<lambda>u r'. lit '' fcst'' r' (\<lambda>_. Some (?n, u))) = Some (n, u)"
    by blast
  from greedy_SomeD [OF g] obtain j where j: "j \<le> length (takeWhile not_newline r)"
    and l: "lit '' fcst'' (drop j r) (\<lambda>_. Some (?n, take j r)) = Some (n, u)"
    by auto
  from lit_SomeD [OF l] obtain post where post: "drop j r = '' fcst'' @ post"
    and n: "n = ?n" and u: "u = take j r"
    by auto
  have u_line: "list_all not_newline u"
    unfolding u using j by (rule take_within_run)
  have "s = ?n @ dropWhile is_digit s" by simp
  also have "\<dots> = ?n @ '' '' @ take j r @ drop j r"
    unfolding r by simp
  finally have decomp: "s = n @ '' '' @ u @ '' fcst'' @ post"
    unfolding n u post .
  have digits: "list_all is_digit n"
    unfolding n by (auto simp: list_all_iff dest: set_takeWhileD)
  from ne have "n \<noteq> []"
    unfolding n .
  with decomp digits u_line show ?thesis
    by (intro exI [of _ post] conjI)
qed

lemma match_fcst_not_None:
  assumes "n \<noteq> []" and "list_all is_digit n" and "list_all not_newline u"
  shows "match_fcst (n @ '' '' @ u @ '' fcst'' @ post) \<noteq> None"
proof -
  have "greedy not_newline 0 (u @ '' fcst'' @ post)
          (\<lambda>u' r'. lit '' fcst'' r' (\<lambda>_. Some (n, u'))) \<noteq> None"
  proof (rule greedy_not_None [where j = "length u"])
    show "length u \<le> length (takeWhile not_newline (u @ '' fcst'' @ post))"
      using assms(3) by (simp add: takeWhile_all)
    show "lit '' fcst'' (drop (length u) (u @ '' fcst'' @ post))
            (\<lambda>_. Some (n, take (length u) (u @ '' fcst'' @ post))) \<noteq> None"
      by (simp add: lit_def)
  qed simp
  then show ?thesis
    using assms(1,2) by (simp add: match_fcst_eq takeWhile_run dropWhile_run lit_step)
qed

lemma search_fcst_iff: "re_search match_fcst t \<noteq> None \<longleftrightarrow> contains_fcst t"
proof
  assume "re_search match_fcst t \<noteq> None"
  then obtain n u where "re_search match_fcst t = Some (n, u)" by auto
  then obtain pre suf where "t = pre @ suf" and "match_fcst suf = Some (n, u)"
    by (blast dest: re_search_SomeD)
  with match_fcst_SomeD [of suf n u] show "contains_fcst t"
    unfolding contains_fcst_def by blast
next
  assume "contains_fcst t"
  then obtain pre n u post where "t = pre @ (n @ '' '' @ u @ '' fcst'' @ post)"
    and "n \<noteq> []" "list_all is_digit n" "list_all not_newline u"
    unfolding contains_fcst_def by auto
  then show "re_search match_fcst t \<noteq> None"
    using re_search_not_None [of match_fcst "n @ '' '' @ u @ '' fcst'' @ post" pre]
      match_fcst_not_None [of n u post] by simp
qed

lemma match_interval_SomeD:
  assumes "match_interval s = Some (n1, n2, w, st)"
  shows "\<exists>post. s = n1 @ ''-'' @ n2 @ '' '' @ w @ '' '' @ post
           \<and> n1 \<noteq> [] \<and> list_all is_digit n1 \<and> n2 \<noteq> [] \<and> list_all is_digit n2
           \<and> w \<noteq> [] \<and> list_all is_word w \<and> st = takeWhile not_newline post"
proof -
  let ?n1 = "takeWhile is_digit s"
  from assms have ne1: "?n1 \<noteq> []"
    unfolding match_interval_eq by (simp split: if_splits)
  with assms have "lit ''-'' (dropWhile is_digit s) (\<lambda>r.
        if takeWhile is_digit r = [] then None
        else lit '' '' (dropWhile is_digit r) (\<lambda>r'.
          if takeWhile is_word r' = [] then None
          else lit '' '' (dropWhile is_word r') (\<lambda>r''.
            Some (?n1, takeWhile is_digit r, takeWhile is_word r',
                  takeWhile not_newline r'')))) = Some (n1, n2, w, st)"
    unfolding match_interval_eq by simp
  from lit_SomeD [OF this] obtain r where r: "dropWhile is_digit s = ''-'' @ r"
    and k1: "(if takeWhile is_digit r = [] then None
        else lit '' '' (dropWhile is_digit r) (\<lambda>r'.
          if takeWhile is_word r' = [] then None
          else lit '' '' (dropWhile is_word r') (\<lambda>r''.
            Some (?n1, takeWhile is_digit r, takeWhile is_word r',
                  takeWhile not_newline r'')))) = Some (n1, n2, w, st)"
    by blast
  let ?n2 = "takeWhile is_digit r"
  from k1 have ne2: "?n2 \<noteq> []"
    by (simp split: if_splits)
  with k1 have "lit '' '' (dropWhile is_digit r) (\<lambda>r'.
          if takeWhile is_word r' = [] then None
          else lit '' '' (dropWhile is_word r') (\<lambda>r''.
            Some (?n1, ?n2, takeWhile is_word r',
                  takeWhile not_newline r''))) = Some (n1, n2, w, st)"
    by simp
  from lit_SomeD [OF this] obtain r' where r': "dropWhile is_digit r = '' '' @ r'"
    and k2: "(if takeWhile is_word r' = [] then None
          else lit '' '' (dropWhile is_word r') (\<lambda>r''.
            Some (?n1, ?n2, takeWhile is_word r',
                  takeWhile not_newline r''))) = Some (n1, n2, w, st)"
    by blast
  let ?w = "takeWhile is_word r'"
  from k2 have ne3: "?w \<noteq> []"
    by (simp split: if_splits)
  with k2 have "lit '' '' (dropWhile is_word r') (\<lambda>r''.
            Some (?n1, ?n2, ?w, takeWhile not_newline r'')) = Some (n1, n2, w, st)"
    by simp
  from lit_SomeD [OF this] obtain post where post: "dropWhile is_word r' = '' '' @ post"
    and k3: "Some (?n1, ?n2, ?w, takeWhile not_newline post) = Some (n1, n2, w, st)"
    by blast
  from k3 have eqs: "n1 = ?n1" "n2 = ?n2" "w = ?w" "st = takeWhile not_newline post"
    by simp_all
  have "s = ?n1 @ dropWhile is_digit s" by simp
  also have "\<dots> = ?n1 @ ''-'' @ ?n2 @ dropWhile is_digit r" unfolding r by simp
  also have "\<dots> = ?n1 @ ''-'' @ ?n2 @ '' '' @ ?w @ dropWhile is_word r'" unfolding r' by simp
  finally have decomp: "s = n1 @ ''-'' @ n2 @ '' '' @ w @ '' '' @ post"
    unfolding post eqs .
  have classes: "list_all is_digit n1" "list_all is_digit n2" "list_all is_word w"
    unfolding eqs by (auto simp: list_all_iff dest: set_takeWhileD)
  from ne1 ne2 ne3 have "n1 \<noteq> []" "n2 \<noteq> []" "w \<noteq> []"
    unfolding eqs .
  with decomp classes eqs(4) show ?thesis
    by (intro exI [of _ post] conjI)
qed

lemma match_interval_not_None:
  assumes "n1 \<noteq> []" and "list_all is_digit n1" and "n2 \<noteq> []" and "list_all is_digit n2"
    and "w \<noteq> []" and "list_all is_word w"
  shows "match_interval (n1 @ ''-'' @ n2 @ '' '' @ w @ '' '' @ post) \<noteq> None"
  using assms
  by (simp add: match_interval_eq takeWhile_run dropWhile_run lit_step)

lemma search_interval_iff: "re_search match_interval t \<noteq> None \<longleftrightarrow> contains_interval t"
proof
  assume "re_search match_interval t \<noteq> None"
  then obtain n1 n2 w st where "re_search match_interval t = Some (n1, n2, w, st)" by auto
  then obtain pre suf where "t = pre @ suf" and "match_interval suf = Some (n1, n2, w, st)"
    by (blast dest: re_search_SomeD)
  with match_interval_SomeD [of suf n1 n2 w st] show "contains_interval t"
    unfolding contains_interval_def by blast
next
  assume "contains_interval t"
  then obtain pre n1 n2 w post where "t = pre @ (n1 @ ''-'' @ n2 @ '' '' @ w @ '' '' @ post)"
    and "n1 \<noteq> []" "list_all is_digit n1" "n2 \<noteq> []" "list_all is_digit n2"
    and "w \<noteq> []" "list_all is_word w"
    unfolding contains_interval_def by auto
  then show "re_search match_interval t \<noteq> None"
    using re_search_not_None [of match_interval "n1 @ ''-'' @ n2 @ '' '' @ w @ '' '' @ post" pre]
      match_interval_not_None [of n1 n2 w post] by simp
qed

section \<open>Variable.from_template\<close>

lemma str_int_0: "str_int 0 = ''0''"
  by (simp add: str_int_def str_nat.simps digit_chars_def)

lemma py_int_digits: "n \<noteq> [] \<Longrightarrow> list_all is_digit n \<Longrightarrow> py_int n = Inr (int_of_digits n)"
  by (simp add: py_int_def)

lemma digits_not_analysis:
  "n \<noteq> [] \<Longrightarrow> list_all is_digit n \<Longrightarrow> n @ s \<noteq> ''analysis''"
  by (cases n) (auto simp: is_digit_def digit_chars_def)

lemma int_of_float_of_int_exact: "\<bar>q\<bar> \<le> 2 ^ 53 \<Longrightarrow> int_of_float_of_int q = Inr q"
  by (simp add: int_of_float_of_int_def)

text \<open>The three branches of the chain, given what the searches return.\<close>

lemma forecast_valid_of_fcst:
  assumes "t \<noteq> ''analysis''" and "re_search match_fcst t = Some (n, u)"
  shows "forecast_valid_of fh t =
           (if u = ''min''
            then (case py_int n of Inl e \<Rightarrow> Inl e
                  | Inr k \<Rightarrow> Inr (str_int (k + (fh - 1) * 60) @ '' '' @ u @ '' fcst''))
            else Inr (str_int fh @ '' '' @ u @ '' fcst''))"
  using assms by (simp add: forecast_valid_of_def split: sum.splits)

lemma forecast_valid_of_interval:
  assumes "t \<noteq> ''analysis''" and "re_search match_fcst t = None"
    and "re_search match_interval t = Some (n1, n2, w, st)"
    and "py_int n1 = Inr a" and "py_int n2 = Inr b"
  shows "forecast_valid_of fh t =
           (if w = ''min''
            then Inr (str_int (a + (fh - 2) * 60) @ ''-'' @ str_int (b + (fh - 2) * 60)
                      @ '' min '' @ st)
            else if fh mod 24 = 0
            then (case int_of_float_of_int (fh div 24) of Inl e \<Rightarrow> Inl e
                  | Inr d \<Rightarrow> Inr (str_int 0 @ ''-'' @ str_int d @ '' day '' @ st))
            else Inr (str_int (if n1 = ''1'' then fh - 1 else 0) @ ''-'' @ str_int fh
                      @ '' hour '' @ st))"
  using assms by (simp add: forecast_valid_of_def Let_def split: sum.splits)

lemma forecast_valid_of_unparsed:
  assumes "t \<noteq> ''analysis''" and "re_search match_fcst t = None"
    and "re_search match_interval t = None"
  shows "forecast_valid_of fh t =
           Inl (ValueError (t @ '' could not be parsed into a forecast_valid string''))"
  using assms by (simp add: forecast_valid_of_def)

lemma from_template_Inr:
  "forecast_valid_of fh t = Inr v \<Longrightarrow>
   from_template fh t rn ll p d =
     Inr \<lparr>row_number = rn, level_layer = ll, parameter = p, forecast_valid = v,
          description = d\<rparr>"
  by (simp add: from_template_def)

lemma from_template_Inl:
  "forecast_valid_of fh t = Inl e \<Longrightarrow> from_template fh t rn ll p d = Inl e"
  by (simp add: from_template_def)

lemma forecast_valid_of_single_instant:
  assumes "n \<noteq> []" and "list_all is_digit n" and "list_all not_newline u"
  shows "forecast_valid_of fh (n @ '' '' @ u @ '' fcst'') =
           Inr (str_int (if u = ''min'' then int_of_digits n + (fh - 1) * 60 else fh)
                @ '' '' @ u @ '' fcst'')"
proof -
  have "n @ '' '' @ u @ '' fcst'' \<noteq> ''analysis''"
    using assms(1,2) by (rule digits_not_analysis)
  moreover have "re_search match_fcst (n @ '' '' @ u @ '' fcst'') = Some (n, u)"
    using assms by (rule search_fcst_exact)
  ultimately show ?thesis
    using py_int_digits [OF assms(1,2)] by (simp add: forecast_valid_of_fcst)
qed

text \<open>
  C1, as amended.  For a template \<open>n unit fcst\<close> with a number \<open>n\<close>, a unit of one
  line that is not \<open>min\<close>, and any forecast hour, the number of the template is
  discarded and the text is the forecast hour, the unit of the template and \<open>fcst\<close>:
  the unit is kept as the template has it.
\<close>

theorem single_instant_keeps_unit:
  assumes "n \<noteq> []" and "list_all is_digit n"
    and "list_all not_newline u" and "u \<noteq> ''min''"
  shows "from_template fh (n @ '' '' @ u @ '' fcst'') rn ll p d =
           Inr \<lparr>row_number = rn, level_layer = ll, parameter = p,
                forecast_valid = str_int fh @ '' '' @ u @ '' fcst'',
                description = d\<rparr>"
  using forecast_valid_of_single_instant [OF assms(1-3), of fh] assms(4)
  by (simp add: from_template_Inr)

theorem single_instant_keeps_unit_witness:
  "from_template 5 ''3 hour fcst'' 7 ''surface'' ''TMP'' ''Temperature'' =
     Inr \<lparr>row_number = 7, level_layer = ''surface'', parameter = ''TMP'',
          forecast_valid = ''5 hour fcst'', description = ''Temperature''\<rparr>"
  using single_instant_keeps_unit [of "''3''" "''hour''" 5 7 "''surface''" "''TMP''" "''Temperature''"]
  by (simp add: is_digit_def digit_chars_def not_newline_def newline_def str_int_def
      str_nat.simps)

text \<open>
  C1, as stated, fails for a unit other than \<open>hour\<close>: the unit of the result is the
  unit of the template, not the word \<open>hour\<close>.
\<close>

theorem single_instant_day_unit_not_hour:
  "from_template 5 ''3 day fcst'' 7 ''surface'' ''TMP'' ''Temperature'' =
     Inr \<lparr>row_number = 7, level_layer = ''surface'', parameter = ''TMP'',
          forecast_valid = ''5 day fcst'', description = ''Temperature''\<rparr>
   \<and> ''5 day fcst'' \<noteq> ''5 hour fcst''"
  using forecast_valid_of_single_instant [of "''3''" "''day''" 5]
  by (simp add: from_template_Inr is_digit_def digit_chars_def not_newline_def newline_def
      str_int_def str_nat.simps)

lemma word_min: "list_all is_word ''min''"
  by (simp add: is_word_def)

lemma forecast_valid_of_interval_exact:
  assumes "n1 \<noteq> []" and "list_all is_digit n1" and "n2 \<noteq> []" and "list_all is_digit n2"
    and "w \<noteq> []" and "list_all is_word w" and "list_all not_newline st"
    and "re_search match_fcst (n1 @ ''-'' @ n2 @ '' '' @ w @ '' '' @ st) = None"
  shows "forecast_valid_of fh (n1 @ ''-'' @ n2 @ '' '' @ w @ '' '' @ st) =
           (if w = ''min''
            then Inr (str_int (int_of_digits n1 + (fh - 2) * 60) @ ''-''
                      @ str_int (int_of_digits n2 + (fh - 2) * 60) @ '' min '' @ st)
            else if fh mod 24 = 0
            then (case int_of_float_of_int (fh div 24) of Inl e \<Rightarrow> Inl e
                  | Inr d \<Rightarrow> Inr (str_int 0 @ ''-'' @ str_int d @ '' day '' @ st))
            else Inr (str_int (if n1 = ''1'' then fh - 1 else 0) @ ''-'' @ str_int fh
                      @ '' hour '' @ st))"
proof -
  let ?t = "n1 @ ''-'' @ n2 @ '' '' @ w @ '' '' @ st"
  have "?t \<noteq> ''analysis''"
    using assms(1,2) by (rule digits_not_analysis)
  moreover have "re_search match_interval ?t = Some (n1, n2, w, st)"
    using assms(1-7) by (rule search_interval_exact)
  ultimately show ?thesis
    by (rule forecast_valid_of_interval
        [OF _ assms(8) _ py_int_digits [OF assms(1,2)] py_int_digits [OF assms(3,4)]])
qed

lemma div_24_bound:
  fixes fh c :: int
  assumes "\<bar>fh\<bar> \<le> 24 * c"
  shows "\<bar>fh div 24\<bar> \<le> c"
  using assms by arith

text \<open>
  C4, as amended.  For every forecast hour, a template \<open>n min fcst\<close> with a number
  \<open>n\<close> gives \<open>n + (fh - 1) * 60\<close> minutes; a template \<open>n1-n2 min stat\<close> with
  numbers \<open>n1\<close> and \<open>n2\<close> and a statistic of one line gives the interval from
  \<open>n1 + (fh - 2) * 60\<close> to \<open>n2 + (fh - 2) * 60\<close> minutes with the same statistic,
  provided that the single-instant pattern, which is tried first, finds no match in the
  template.
\<close>

theorem minute_templates:
  "(n \<noteq> [] \<and> list_all is_digit n \<longrightarrow>
      from_template fh (n @ '' min fcst'') rn ll p d =
        Inr \<lparr>row_number = rn, level_layer = ll, parameter = p,
             forecast_valid = str_int (int_of_digits n + (fh - 1) * 60) @ '' min fcst'',
             description = d\<rparr>)
   \<and> (n1 \<noteq> [] \<and> list_all is_digit n1 \<and> n2 \<noteq> [] \<and> list_all is_digit n2
        \<and> list_all not_newline stat
        \<and> re_search match_fcst (n1 @ ''-'' @ n2 @ '' min '' @ stat) = None \<longrightarrow>
      from_template fh (n1 @ ''-'' @ n2 @ '' min '' @ stat) rn ll p d =
        Inr \<lparr>row_number = rn, level_layer = ll, parameter = p,
             forecast_valid =
               str_int (int_of_digits n1 + (fh - 2) * 60) @ ''-''
               @ str_int (int_of_digits n2 + (fh - 2) * 60) @ '' min '' @ stat,
             description = d\<rparr>)"
proof (intro conjI impI)
  assume "n \<noteq> [] \<and> list_all is_digit n"
  then show "from_template fh (n @ '' min fcst'') rn ll p d =
        Inr \<lparr>row_number = rn, level_layer = ll, parameter = p,
             forecast_valid = str_int (int_of_digits n + (fh - 1) * 60) @ '' min fcst'',
             description = d\<rparr>"
    using forecast_valid_of_single_instant [of n "''min''" fh]
    by (simp add: from_template_def not_newline_def newline_def)
next
  assume a: "n1 \<noteq> [] \<and> list_all is_digit n1 \<and> n2 \<noteq> [] \<and> list_all is_digit n2
        \<and> list_all not_newline stat
        \<and> re_search match_fcst (n1 @ ''-'' @ n2 @ '' min '' @ stat) = None"
  then have "forecast_valid_of fh (n1 @ ''-'' @ n2 @ '' '' @ ''min'' @ '' '' @ stat) =
      Inr (str_int (int_of_digits n1 + (fh - 2) * 60) @ ''-''
           @ str_int (int_of_digits n2 + (fh - 2) * 60) @ '' min '' @ stat)"
    by (subst forecast_valid_of_interval_exact) (simp_all add: is_word_def)
  then show "from_template fh (n1 @ ''-'' @ n2 @ '' min '' @ stat) rn ll p d =
        Inr \<lparr>row_number = rn, level_layer = ll, parameter = p,
             forecast_valid =
               str_int (int_of_digits n1 + (fh - 2) * 60) @ ''-''
               @ str_int (int_of_digits n2 + (fh - 2) * 60) @ '' min '' @ stat,
             description = d\<rparr>"
    by (simp add: from_template_def)
qed

lemma search_fcst_acc: "re_search match_fcst ''0-15 min acc'' = None"
  by code_simp

lemma int_of_digits_examples:
  "int_of_digits ''30'' = 30" "int_of_digits ''0'' = 0" "int_of_digits ''15'' = 15"
  by (simp_all add: int_of_digits_def digit_val_def)

lemma str_int_examples:
  "str_int 90 = ''90''" "str_int 60 = ''60''" "str_int 75 = ''75''" "str_int 135 = ''135''"
  "str_int 5 = ''5''" "str_int 4 = ''4''" "str_int 1 = ''1''"
  by (simp_all add: str_int_def str_nat.simps digit_chars_def)

theorem minute_templates_witness:
  "from_template 2 ''30 min fcst'' 7 ''surface'' ''TMP'' ''Temperature'' =
     Inr \<lparr>row_number = 7, level_layer = ''surface'', parameter = ''TMP'',
          forecast_valid = ''90 min fcst'', description = ''Temperature''\<rparr>
   \<and> from_template 3 ''0-15 min acc'' 7 ''surface'' ''APCP'' ''Precipitation'' =
     Inr \<lparr>row_number = 7, level_layer = ''surface'', parameter = ''APCP'',
          forecast_valid = ''60-75 min acc'', description = ''Precipitation''\<rparr>"
proof -
  have digits: "list_all is_digit ''30''" "list_all is_digit ''0''" "list_all is_digit ''15''"
    by (simp_all add: is_digit_def digit_chars_def)
  have line: "list_all not_newline ''acc''"
    by (simp add: not_newline_def newline_def)
  show ?thesis
    using minute_templates [of "''30''" 2 7 "''surface''" "''TMP''" "''Temperature''"]
      minute_templates [of _ 3 7 "''surface''" "''APCP''" "''Precipitation''" "''0''" "''15''" "''acc''"]
      digits line search_fcst_acc
    by (simp add: int_of_digits_examples str_int_examples)
qed

text \<open>
  C4, as stated, fails for the interval template \<open>0-15 min fcst\<close>: the
  single-instant pattern matches it at \<open>15 min fcst\<close>, so at forecast hour 3 the
  result is \<open>135 min fcst\<close> and not \<open>60-75 min fcst\<close>.
\<close>

theorem minute_interval_fcst_not_interval:
  "from_template 3 ''0-15 min fcst'' 7 ''surface'' ''TMP'' ''Temperature'' =
     Inr \<lparr>row_number = 7, level_layer = ''surface'', parameter = ''TMP'',
          forecast_valid = ''135 min fcst'', description = ''Temperature''\<rparr>
   \<and> ''135 min fcst'' \<noteq> ''60-75 min fcst''"
proof
  show "from_template 3 ''0-15 min fcst'' 7 ''surface'' ''TMP'' ''Temperature'' =
     Inr \<lparr>row_number = 7, level_layer = ''surface'', parameter = ''TMP'',
          forecast_valid = ''135 min fcst'', description = ''Temperature''\<rparr>"
    by code_simp
  show "''135 min fcst'' \<noteq> ''60-75 min fcst''"
    by simp
qed

text \<open>
  Beyond \<open>2 ^ 53\<close> the quotient is rounded: the float of \<open>2 ^ 53 + 1\<close> is
  \<open>2 ^ 53\<close>.
\<close>

lemma bit_length_54: "bit_length 9007199254740993 = 54"
  by (simp add: bit_length.simps)

lemma float_rounds_beyond_2_53: "int_of_float_of_int (2 ^ 53 + 1) = Inr (2 ^ 53)"
  unfolding int_of_float_of_int_def Let_def
  by (simp add: bit_length_54)

text \<open>
  C3, as amended.  For a template \<open>n1-n2 unit stat\<close> with numbers \<open>n1\<close> and
  \<open>n2\<close>, a unit that is a word other than \<open>min\<close> and a statistic of one line, in
  which the single-instant pattern finds no match, and for a forecast hour whose quotient
  by 24 a double holds exactly: the text is \<open>0\<close> to \<open>fh / 24\<close> days when the
  forecast hour is a multiple of 24, and otherwise \<open>start\<close> to \<open>fh\<close> hours, where
  \<open>start\<close> is \<open>fh - 1\<close> if \<open>n1\<close> is the text \<open>1\<close> and 0 if not.
\<close>

theorem interval_hour_templates:
  assumes "n1 \<noteq> []" and "list_all is_digit n1" and "n2 \<noteq> []" and "list_all is_digit n2"
    and "w \<noteq> []" and "list_all is_word w" and "w \<noteq> ''min''"
    and "list_all not_newline stat"
    and "re_search match_fcst (n1 @ ''-'' @ n2 @ '' '' @ w @ '' '' @ stat) = None"
    and "\<bar>fh\<bar> \<le> 24 * 2 ^ 53"
  shows "from_template fh (n1 @ ''-'' @ n2 @ '' '' @ w @ '' '' @ stat) rn ll p d =
           Inr \<lparr>row_number = rn, level_layer = ll, parameter = p,
                forecast_valid =
                  (if fh mod 24 = 0
                   then ''0-'' @ str_int (fh div 24) @ '' day '' @ stat
                   else str_int (if n1 = ''1'' then fh - 1 else 0) @ ''-'' @ str_int fh
                        @ '' hour '' @ stat),
                description = d\<rparr>"
proof -
  have "int_of_float_of_int (fh div 24) = Inr (fh div 24)"
    using assms(10) by (intro int_of_float_of_int_exact div_24_bound)
  then have "forecast_valid_of fh (n1 @ ''-'' @ n2 @ '' '' @ w @ '' '' @ stat) =
      Inr (if fh mod 24 = 0
           then ''0-'' @ str_int (fh div 24) @ '' day '' @ stat
           else str_int (if n1 = ''1'' then fh - 1 else 0) @ ''-'' @ str_int fh
                @ '' hour '' @ stat)"
    unfolding forecast_valid_of_interval_exact [OF assms(1-6,8,9)]
    using assms(7) by (simp add: str_int_0)
  then show ?thesis
    by (simp add: from_template_def)
qed

lemma search_fcst_hour_acc:
  "re_search match_fcst ''1-2 hour acc'' = None"
  "re_search match_fcst ''0-1 hour acc'' = None"
  by code_simp+

theorem interval_hour_templates_witness:
  "from_template 5 ''1-2 hour acc'' 7 ''surface'' ''APCP'' ''Precipitation'' =
     Inr \<lparr>row_number = 7, level_layer = ''surface'', parameter = ''APCP'',
          forecast_valid = ''4-5 hour acc'', description = ''Precipitation''\<rparr>
   \<and> from_template 24 ''0-1 hour acc'' 7 ''surface'' ''APCP'' ''Precipitation'' =
     Inr \<lparr>row_number = 7, level_layer = ''surface'', parameter = ''APCP'',
          forecast_valid = ''0-1 day acc'', description = ''Precipitation''\<rparr>"
proof -
  have classes: "list_all is_digit ''1''" "list_all is_digit ''2''" "list_all is_digit ''0''"
    "list_all is_word ''hour''" "list_all not_newline ''acc''"
    by (simp_all add: is_digit_def digit_chars_def is_word_def not_newline_def newline_def)
  have "from_template 5 (''1'' @ ''-'' @ ''2'' @ '' '' @ ''hour'' @ '' '' @ ''acc'')
          7 ''surface'' ''APCP'' ''Precipitation'' =
     Inr \<lparr>row_number = 7, level_layer = ''surface'', parameter = ''APCP'',
          forecast_valid = ''4-5 hour acc'', description = ''Precipitation''\<rparr>"
    by (subst interval_hour_templates)
      (use classes search_fcst_hour_acc in \<open>simp_all add: str_int_examples\<close>)
  moreover have "from_template 24 (''0'' @ ''-'' @ ''1'' @ '' '' @ ''hour'' @ '' '' @ ''acc'')
          7 ''surface'' ''APCP'' ''Precipitation'' =
     Inr \<lparr>row_number = 7, level_layer = ''surface'', parameter = ''APCP'',
          forecast_valid = ''0-1 day acc'', description = ''Precipitation''\<rparr>"
    by (subst interval_hour_templates)
      (use classes search_fcst_hour_acc in \<open>simp_all add: str_int_examples\<close>)
  ultimately show ?thesis by simp
qed

text \<open>
  C3, as stated, fails for the interval template \<open>0-1 hour fcst\<close>: the
  single-instant pattern matches it at \<open>1 hour fcst\<close>, so at forecast hour 5 the
  result is \<open>5 hour fcst\<close> and not \<open>0-5 hour fcst\<close>.
\<close>

theorem interval_hour_fcst_not_interval:
  "from_template 5 ''0-1 hour fcst'' 7 ''surface'' ''TMP'' ''Temperature'' =
     Inr \<lparr>row_number = 7, level_layer = ''surface'', parameter = ''TMP'',
          forecast_valid = ''5 hour fcst'', description = ''Temperature''\<rparr>
   \<and> ''5 hour fcst'' \<noteq> ''0-5 hour fcst''"
proof
  show "from_template 5 ''0-1 hour fcst'' 7 ''surface'' ''TMP'' ''Temperature'' =
     Inr \<lparr>row_number = 7, level_layer = ''surface'', parameter = ''TMP'',
          forecast_valid = ''5 hour fcst'', description = ''Temperature''\<rparr>"
    by code_simp
  show "''5 hour fcst'' \<noteq> ''0-5 hour fcst''"
    by simp
qed

text \<open>
  C10.  A template \<open>n1-n2 min fcst\<close> with numbers \<open>n1\<close> and \<open>n2\<close> is of the
  interval shape (the interval pattern matches it, with the statistic \<open>fcst\<close>), but
  the single-instant search, which is tried first and is not anchored, matches it at
  \<open>n2 min fcst\<close>: the result is \<open>n2 + (fh - 1) * 60\<close> minutes, from the second
  number alone, for every forecast hour.
\<close>

theorem interval_min_fcst_is_single_instant:
  assumes "n1 \<noteq> []" and "list_all is_digit n1" and "n2 \<noteq> []" and "list_all is_digit n2"
  shows "re_search match_interval (n1 @ ''-'' @ n2 @ '' min fcst'')
           = Some (n1, n2, ''min'', ''fcst'')
       \<and> re_search match_fcst (n1 @ ''-'' @ n2 @ '' min fcst'') = Some (n2, ''min'')
       \<and> from_template fh (n1 @ ''-'' @ n2 @ '' min fcst'') rn ll p d =
           Inr \<lparr>row_number = rn, level_layer = ll, parameter = p,
                forecast_valid = str_int (int_of_digits n2 + (fh - 1) * 60) @ '' min fcst'',
                description = d\<rparr>"
proof (intro conjI)
  have "re_search match_interval (n1 @ ''-'' @ n2 @ '' '' @ ''min'' @ '' '' @ ''fcst'')
          = Some (n1, n2, ''min'', ''fcst'')"
    using assms by (intro search_interval_exact) (simp_all add: is_word_def not_newline_def newline_def)
  then show "re_search match_interval (n1 @ ''-'' @ n2 @ '' min fcst'')
           = Some (n1, n2, ''min'', ''fcst'')"
    by simp
  have "re_search match_fcst (n1 @ ''-'' @ (n2 @ '' '' @ ''min'' @ '' fcst'')) = Some (n2, ''min'')"
    using assms
    by (simp only: search_fcst_skip)
      (intro search_fcst_exact, simp_all add: not_newline_def newline_def)
  then show found: "re_search match_fcst (n1 @ ''-'' @ n2 @ '' min fcst'') = Some (n2, ''min'')"
    by simp
  have "n1 @ ''-'' @ n2 @ '' min fcst'' \<noteq> ''analysis''"
    using assms(1,2) by (rule digits_not_analysis)
  then have "forecast_valid_of fh (n1 @ ''-'' @ n2 @ '' min fcst'') =
      Inr (str_int (int_of_digits n2 + (fh - 1) * 60) @ '' min fcst'')"
    using found py_int_digits [OF assms(3,4)]
    by (simp add: forecast_valid_of_fcst)
  then show "from_template fh (n1 @ ''-'' @ n2 @ '' min fcst'') rn ll p d =
           Inr \<lparr>row_number = rn, level_layer = ll, parameter = p,
                forecast_valid = str_int (int_of_digits n2 + (fh - 1) * 60) @ '' min fcst'',
                description = d\<rparr>"
    by (simp add: from_template_def)
qed

theorem interval_min_fcst_is_single_instant_witness:
  "re_search match_interval ''0-15 min fcst'' = Some (''0'', ''15'', ''min'', ''fcst'')
   \<and> from_template 3 ''0-15 min fcst'' 7 ''surface'' ''TMP'' ''Temperature'' =
     Inr \<lparr>row_number = 7, level_layer = ''surface'', parameter = ''TMP'',
          forecast_valid = ''135 min fcst'', description = ''Temperature''\<rparr>"
  using interval_min_fcst_is_single_instant
    [of "''0''" "''15''" 3 7 "''surface''" "''TMP''" "''Temperature''"]
  by (simp add: is_digit_def digit_chars_def int_of_digits_examples str_int_examples)

text \<open>
  C9, as amended.  A template that is not the text \<open>analysis\<close> and in which neither
  the single-instant search nor the interval search finds a match anywhere raises the
  template-parse error at every forecast hour, and the message starts with the text of
  the template.
\<close>

theorem unrecognized_template_raises:
  assumes "t \<noteq> ''analysis''" and "\<not> contains_fcst t" and "\<not> contains_interval t"
  shows "from_template fh t rn ll p d =
           Inl (ValueError (t @ '' could not be parsed into a forecast_valid string''))"
proof -
  from assms(2) have "re_search match_fcst t = None"
    using search_fcst_iff [of t] by blast
  moreover from assms(3) have "re_search match_interval t = None"
    using search_interval_iff [of t] by blast
  ultimately show ?thesis
    using assms(1) by (simp add: forecast_valid_of_unparsed from_template_def)
qed

lemma search_garbage:
  "re_search match_fcst ''3 fcst'' = None" "re_search match_interval ''3 fcst'' = None"
  by code_simp+

theorem unrecognized_template_raises_witness:
  "from_template 5 ''3 fcst'' 7 ''surface'' ''TMP'' ''Temperature'' =
     Inl (ValueError ''3 fcst could not be parsed into a forecast_valid string'')"
proof -
  have "\<not> contains_fcst ''3 fcst''" "\<not> contains_interval ''3 fcst''"
    using search_fcst_iff [of "''3 fcst''"] search_interval_iff [of "''3 fcst''"] search_garbage
    by simp_all
  then show ?thesis
    using unrecognized_template_raises [of "''3 fcst''" 5 7 "''surface''" "''TMP''" "''Temperature''"]
    by simp
qed

section \<open>Recognized templates\<close>

lemma search_fcst_groups:
  assumes "re_search match_fcst t = Some (n, u)"
  shows "n \<noteq> [] \<and> list_all is_digit n"
proof -
  from re_search_SomeD [OF assms] obtain pre suf where "match_fcst suf = Some (n, u)"
    by blast
  from match_fcst_SomeD [OF this] show ?thesis
    by blast
qed

lemma search_interval_groups:
  assumes "re_search match_interval t = Some (n1, n2, w, st)"
  shows "n1 \<noteq> [] \<and> list_all is_digit n1 \<and> n2 \<noteq> [] \<and> list_all is_digit n2"
proof -
  from re_search_SomeD [OF assms] obtain pre suf
    where "match_interval suf = Some (n1, n2, w, st)"
    by blast
  from match_interval_SomeD [OF this] show ?thesis
    by blast
qed

lemma int_of_float_of_int_error: "int_of_float_of_int q = Inl e \<Longrightarrow> e = OverflowError"
  by (auto simp: int_of_float_of_int_def Let_def split: if_splits)

text \<open>
  A recognized template gives a text, at every forecast hour whose quotient by 24 a
  double holds exactly.
\<close>

lemma forecast_valid_of_recognized:
  assumes "recognized t" and "\<bar>fh\<bar> \<le> 24 * 2 ^ 53"
  shows "\<exists>v. forecast_valid_of fh t = Inr v"
proof (cases "t = ''analysis''")
  case True
  then show ?thesis by (simp add: forecast_valid_of_def)
next
  case False
  show ?thesis
  proof (cases "re_search match_fcst t")
    case (Some g)
    obtain n u where g: "g = (n, u)" by (cases g)
    from Some have found: "re_search match_fcst t = Some (n, u)"
      unfolding g .
    from search_fcst_groups [OF found] have "py_int n = Inr (int_of_digits n)"
      by (simp add: py_int_digits)
    then show ?thesis
      unfolding forecast_valid_of_fcst [OF False found] by simp
  next
    case None
    with assms(1) False have "contains_interval t"
      using search_fcst_iff [of t] by (simp add: recognized_def)
    then obtain g where "re_search match_interval t = Some g"
      using search_interval_iff [of t] by blast
    moreover obtain n1 n2 w st where "g = (n1, n2, w, st)" by (cases g)
    ultimately have found: "re_search match_interval t = Some (n1, n2, w, st)"
      by simp
    from search_interval_groups [OF found]
    have n1: "py_int n1 = Inr (int_of_digits n1)" and n2: "py_int n2 = Inr (int_of_digits n2)"
      by (simp_all add: py_int_digits)
    have "int_of_float_of_int (fh div 24) = Inr (fh div 24)"
      using assms(2) by (intro int_of_float_of_int_exact div_24_bound)
    then show ?thesis
      unfolding forecast_valid_of_interval [OF False None found n1 n2] by simp
  qed
qed

lemma expand_recognized:
  assumes "recognized (t_forecast_valid_template t)" and "\<bar>fh\<bar> \<le> 24 * 2 ^ 53"
  shows "\<exists>v. expand fh t = Inr v"
proof -
  from forecast_valid_of_recognized [OF assms] obtain v
    where "forecast_valid_of fh (t_forecast_valid_template t) = Inr v"
    by blast
  then show ?thesis
    by (simp add: expand_def from_template_def)
qed

lemma generate_forecast_hours_bounded:
  assumes "generate_forecast_hours fhs = Inr hours" and "h \<in> set hours"
  shows "0 \<le> h \<and> h \<le> 48"
proof -
  have "set hours \<subseteq> {0..48}"
    using assms(1)
    by (cases fhs) (simp_all only: generate_simps sum.inject set_upto list.set, auto)
  with assms(2) show ?thesis by auto
qed

lemma forecast_valid_of_recognized_cases:
  assumes "recognized t"
  shows "(\<exists>v. forecast_valid_of fh t = Inr v) \<or> forecast_valid_of fh t = Inl OverflowError"
proof (cases "t = ''analysis''")
  case True
  then show ?thesis by (simp add: forecast_valid_of_def)
next
  case False
  show ?thesis
  proof (cases "re_search match_fcst t")
    case (Some g)
    obtain n u where g: "g = (n, u)" by (cases g)
    from Some have found: "re_search match_fcst t = Some (n, u)"
      unfolding g .
    from search_fcst_groups [OF found] have "py_int n = Inr (int_of_digits n)"
      by (simp add: py_int_digits)
    then show ?thesis
      unfolding forecast_valid_of_fcst [OF False found] by simp
  next
    case None
    with assms False have "contains_interval t"
      using search_fcst_iff [of t] by (simp add: recognized_def)
    then obtain g where "re_search match_interval t = Some g"
      using search_interval_iff [of t] by blast
    moreover obtain n1 n2 w st where "g = (n1, n2, w, st)" by (cases g)
    ultimately have found: "re_search match_interval t = Some (n1, n2, w, st)"
      by simp
    from search_interval_groups [OF found]
    have n1: "py_int n1 = Inr (int_of_digits n1)" and n2: "py_int n2 = Inr (int_of_digits n2)"
      by (simp_all add: py_int_digits)
    show ?thesis
    proof (cases "int_of_float_of_int (fh div 24)")
      case (Inl e)
      then have "e = OverflowError"
        by (rule int_of_float_of_int_error)
      with Inl show ?thesis
        unfolding forecast_valid_of_interval [OF False None found n1 n2] by simp
    next
      case (Inr d)
      then show ?thesis
        unfolding forecast_valid_of_interval [OF False None found n1 n2] by simp
    qed
  qed
qed

text \<open>The template-parse error is raised for the unrecognized templates only.\<close>

lemma parse_error_only_unrecognized:
  assumes "from_template fh t rn ll p d = Inl (ValueError m)"
  shows "\<not> recognized t"
proof
  assume "recognized t"
  from forecast_valid_of_recognized_cases [OF this, of fh] assms show False
    by (auto simp: from_template_def)
qed

lemma not_single_instant_shape_example: "\<not> single_instant_shape ''30 min fcstX''"
proof
  assume "single_instant_shape ''30 min fcstX''"
  then obtain n u where "''30 min fcstX'' = n @ '' '' @ u @ '' fcst''"
    unfolding single_instant_shape_def by blast
  then have "last ''30 min fcstX'' = last (n @ '' '' @ u @ '' fcst'')"
    by (rule arg_cong)
  then show False by simp
qed

lemma not_interval_shape_example: "\<not> interval_shape ''30 min fcstX''"
proof
  assume "interval_shape ''30 min fcstX''"
  then obtain n1 n2 u stat
    where eq: "''30 min fcstX'' = n1 @ ''-'' @ n2 @ '' '' @ u @ '' '' @ stat"
    unfolding interval_shape_def by blast
  have "CHR ''-'' \<in> set (n1 @ ''-'' @ n2 @ '' '' @ u @ '' '' @ stat)"
    by simp
  then have "CHR ''-'' \<in> set ''30 min fcstX''"
    unfolding eq [symmetric] .
  then show False by simp
qed

text \<open>
  C9, as stated, fails for \<open>30 min fcstX\<close>: the template is not the text
  \<open>analysis\<close> and has neither the single-instant shape nor the interval shape, but the
  search finds \<open>30 min fcst\<close> inside it and the rest is dropped: at forecast hour 2
  the result is \<open>90 min fcst\<close>, and nothing is raised.
\<close>

theorem trailing_text_is_accepted:
  "''30 min fcstX'' \<noteq> ''analysis''
   \<and> \<not> single_instant_shape ''30 min fcstX''
   \<and> \<not> interval_shape ''30 min fcstX''
   \<and> from_template 2 ''30 min fcstX'' 7 ''surface'' ''TMP'' ''Temperature'' =
       Inr \<lparr>row_number = 7, level_layer = ''surface'', parameter = ''TMP'',
            forecast_valid = ''90 min fcst'', description = ''Temperature''\<rparr>"
proof (intro conjI)
  show "''30 min fcstX'' \<noteq> ''analysis''"
    by simp
  show "\<not> single_instant_shape ''30 min fcstX''"
    by (rule not_single_instant_shape_example)
  show "\<not> interval_shape ''30 min fcstX''"
    by (rule not_interval_shape_example)
  show "from_template 2 ''30 min fcstX'' 7 ''surface'' ''TMP'' ''Temperature'' =
       Inr \<lparr>row_number = 7, level_layer = ''surface'', parameter = ''TMP'',
            forecast_valid = ''90 min fcst'', description = ''Temperature''\<rparr>"
    by code_simp
qed

section \<open>CycleRunConfig\<close>

lemma mapM_Inr:
  "mapM f xs = Inr ys \<Longrightarrow> list_all2 (\<lambda>x y. f x = Inr y) xs ys"
  by (induction xs arbitrary: ys) (auto split: sum.splits)

lemma mapM_Inl:
  "mapM f xs = Inl e \<Longrightarrow> \<exists>x \<in> set xs. f x = Inl e"
  by (induction xs) (auto split: sum.splits)

lemma expand_fields:
  assumes "expand h t = Inr v"
  shows "row_number v = t_row_number t \<and> level_layer v = t_level_layer t
       \<and> parameter v = t_parameter t \<and> description v = t_description t"
  using assms by (auto simp: expand_def from_template_def split: sum.splits)

lemma generate_forecast_hours_distinct:
  "\<exists>hours. generate_forecast_hours fhs = Inr hours \<and> distinct hours"
  by (cases fhs) (simp_all only: generate_simps sum.inject distinct_upto distinct_singleton
      ex_simps simp_thms)

lemma mapM_keyed:
  assumes "mapM (\<lambda>h. case mapM (f h) ts of Inl e \<Rightarrow> Inl e | Inr vs \<Rightarrow> Inr (h, vs)) hs
             = Inr items"
  shows "map fst items = hs \<and> (\<forall>(h, vs) \<in> set items. mapM (f h) ts = Inr vs)"
  using assms
proof (induction hs arbitrary: items)
  case Nil
  then show ?case by simp
next
  case (Cons h hs)
  from Cons.prems obtain vs rest where vs: "mapM (f h) ts = Inr vs"
    and rest: "mapM (\<lambda>h. case mapM (f h) ts of Inl e \<Rightarrow> Inl e | Inr vs \<Rightarrow> Inr (h, vs)) hs
                 = Inr rest"
    and items: "items = (h, vs) # rest"
    by (auto split: sum.splits)
  from Cons.IH [OF rest] vs show ?case
    unfolding items by simp
qed

lemma mapM_entries:
  assumes "mapM (expand h) templates = Inr variables"
  shows "length variables = length templates
        \<and> (\<forall>i < length templates.
              expand h (templates ! i) = Inr (variables ! i)
            \<and> row_number (variables ! i) = t_row_number (templates ! i)
            \<and> level_layer (variables ! i) = t_level_layer (templates ! i)
            \<and> parameter (variables ! i) = t_parameter (templates ! i)
            \<and> description (variables ! i) = t_description (templates ! i))"
proof -
  from assms have each: "list_all2 (\<lambda>t v. expand h t = Inr v) templates variables"
    by (rule mapM_Inr)
  then have len: "length variables = length templates"
    by (simp add: list_all2_lengthD)
  have "expand h (templates ! i) = Inr (variables ! i)
      \<and> row_number (variables ! i) = t_row_number (templates ! i)
      \<and> level_layer (variables ! i) = t_level_layer (templates ! i)
      \<and> parameter (variables ! i) = t_parameter (templates ! i)
      \<and> description (variables ! i) = t_description (templates ! i)"
    if "i < length templates" for i
  proof -
    from each that have "expand h (templates ! i) = Inr (variables ! i)"
      by (simp add: list_all2_conv_all_nth)
    with expand_fields [OF this] show ?thesis
      by (intro conjI) simp_all
  qed
  with len show ?thesis
    by (intro conjI allI impI) simp_all
qed

text \<open>
  The two outcomes of the construction for a registered triple: it raises what the
  expansion of one of the templates raises at one of the enumerated hours, or it
  builds the dictionary of the enumerated hours.
\<close>

lemma cycle_run_config_outcomes:
  assumes "TEMPLATE_INVENTORY (region, product, fhs) = Some templates"
  shows "\<exists>hours. generate_forecast_hours fhs = Inr hours \<and> distinct hours \<and>
           (case CycleRunConfig_init TEMPLATE_INVENTORY region product fhs of
              Inr inventory \<Rightarrow>
                map fst inventory = hours
                \<and> (\<forall>(h, variables) \<in> set inventory.
                      length variables = length templates
                      \<and> (\<forall>i < length templates.
                            expand h (templates ! i) = Inr (variables ! i)
                          \<and> row_number (variables ! i) = t_row_number (templates ! i)
                          \<and> level_layer (variables ! i) = t_level_layer (templates ! i)
                          \<and> parameter (variables ! i) = t_parameter (templates ! i)
                          \<and> description (variables ! i) = t_description (templates ! i)))
            | Inl e \<Rightarrow> \<exists>h \<in> set hours. \<exists>t \<in> set templates. expand h t = Inl e)"
proof -
  obtain hours where hours: "generate_forecast_hours fhs = Inr hours" "distinct hours"
    using generate_forecast_hours_distinct by blast
  let ?g = "\<lambda>h. case mapM (expand h) templates of
                   Inl e \<Rightarrow> Inl e | Inr variables \<Rightarrow> Inr (h, variables)"
  have init: "CycleRunConfig_init TEMPLATE_INVENTORY region product fhs = mapM ?g hours"
    using assms hours(1) by (simp add: CycleRunConfig_init_def)
  show ?thesis
  proof (cases "mapM ?g hours")
    case (Inl e)
    then obtain h where h: "h \<in> set hours" and "?g h = Inl e"
      by (blast dest: mapM_Inl)
    then have "mapM (expand h) templates = Inl e"
      by (simp split: sum.splits)
    then obtain t where "t \<in> set templates" and "expand h t = Inl e"
      by (blast dest: mapM_Inl)
    with h have "\<exists>h \<in> set hours. \<exists>t \<in> set templates. expand h t = Inl e"
      by blast
    with hours show ?thesis
      unfolding init Inl sum.case by (intro exI [of _ hours] conjI)
  next
    case (Inr inventory)
    from mapM_keyed [OF Inr] have keys: "map fst inventory = hours"
      and vars: "\<forall>(h, variables) \<in> set inventory. mapM (expand h) templates = Inr variables"
      by simp_all
    have "case x of (h, variables) \<Rightarrow>
        length variables = length templates
        \<and> (\<forall>i < length templates.
              expand h (templates ! i) = Inr (variables ! i)
            \<and> row_number (variables ! i) = t_row_number (templates ! i)
            \<and> level_layer (variables ! i) = t_level_layer (templates ! i)
            \<and> parameter (variables ! i) = t_parameter (templates ! i)
            \<and> description (variables ! i) = t_description (templates ! i))"
      if "x \<in> set inventory" for x
    proof -
      obtain h variables where x: "x = (h, variables)"
        by (cases x)
      with vars that have "mapM (expand h) templates = Inr variables"
        by (simp add: case_prod_unfold Ball_def)
      from mapM_entries [OF this] show ?thesis
        unfolding x prod.case .
    qed
    then have "\<forall>x \<in> set inventory. case x of (h, variables) \<Rightarrow>
        length variables = length templates
        \<and> (\<forall>i < length templates.
              expand h (templates ! i) = Inr (variables ! i)
            \<and> row_number (variables ! i) = t_row_number (templates ! i)
            \<and> level_layer (variables ! i) = t_level_layer (templates ! i)
            \<and> parameter (variables ! i) = t_parameter (templates ! i)
            \<and> description (variables ! i) = t_description (templates ! i))"
      by (rule ballI)
    with keys hours show ?thesis
      unfolding init Inr sum.case by (intro exI [of _ hours] conjI)
  qed
qed

text \<open>
  C5.  Each entry of the inventory carries a template of one of the three families.
  For a registered triple with such entries the forecast hour set enumerates distinct
  hours and the construction builds a dictionary whose keys are exactly the enumerated
  hours, in their order, each with as many variables as there are templates, the
  variable at each position being the expansion of the template at that position, with
  its row number, level, parameter and description.
\<close>

theorem cycle_run_config_builds:
  assumes "TEMPLATE_INVENTORY (region, product, fhs) = Some templates"
    and "\<forall>t \<in> set templates. recognized (t_forecast_valid_template t)"
  shows "\<exists>hours inventory.
           generate_forecast_hours fhs = Inr hours \<and> distinct hours
         \<and> CycleRunConfig_init TEMPLATE_INVENTORY region product fhs = Inr inventory
         \<and> map fst inventory = hours
         \<and> (\<forall>(h, variables) \<in> set inventory.
               length variables = length templates
               \<and> (\<forall>i < length templates.
                     expand h (templates ! i) = Inr (variables ! i)
                   \<and> row_number (variables ! i) = t_row_number (templates ! i)
                   \<and> level_layer (variables ! i) = t_level_layer (templates ! i)
                   \<and> parameter (variables ! i) = t_parameter (templates ! i)
                   \<and> description (variables ! i) = t_description (templates ! i)))"
proof -
  from cycle_run_config_outcomes [of TEMPLATE_INVENTORY region product fhs templates] assms(1)
  obtain hours
    where hours: "generate_forecast_hours fhs = Inr hours" "distinct hours"
      and outcome: "case CycleRunConfig_init TEMPLATE_INVENTORY region product fhs of
              Inr inventory \<Rightarrow>
                map fst inventory = hours
                \<and> (\<forall>(h, variables) \<in> set inventory.
                      length variables = length templates
                      \<and> (\<forall>i < length templates.
                            expand h (templates ! i) = Inr (variables ! i)
                          \<and> row_number (variables ! i) = t_row_number (templates ! i)
                          \<and> level_layer (variables ! i) = t_level_layer (templates ! i)
                          \<and> parameter (variables ! i) = t_parameter (templates ! i)
                          \<and> description (variables ! i) = t_description (templates ! i)))
            | Inl e \<Rightarrow> \<exists>h \<in> set hours. \<exists>t \<in> set templates. expand h t = Inl e"
    by blast
  show ?thesis
  proof (cases "CycleRunConfig_init TEMPLATE_INVENTORY region product fhs")
    case (Inl e)
    with outcome obtain h t where h: "h \<in> set hours" and t: "t \<in> set templates"
      and raised: "expand h t = Inl e"
      by auto
    from generate_forecast_hours_bounded [OF hours(1) h] have "\<bar>h\<bar> \<le> 24 * 2 ^ 53"
      by simp
    moreover from assms(2) t have "recognized (t_forecast_valid_template t)"
      by blast
    ultimately obtain v where "expand h t = Inr v"
      using expand_recognized by blast
    with raised show ?thesis by simp
  next
    case (Inr inventory)
    with outcome hours show ?thesis
      by (intro exI [of _ hours] exI [of _ inventory]) simp
  qed
qed


lemma recognized_examples:
  "recognized ''analysis''" "recognized ''0-1 hour acc''" "recognized ''3 hour fcst''"
proof -
  show "recognized ''analysis''"
    by (simp add: recognized_def)
  have "re_search match_interval ''0-1 hour acc'' \<noteq> None"
    by code_simp
  then show "recognized ''0-1 hour acc''"
    unfolding recognized_def search_interval_iff by simp
  have "re_search match_fcst ''3 hour fcst'' \<noteq> None"
    by code_simp
  then show "recognized ''3 hour fcst''"
    unfolding recognized_def search_fcst_iff by simp
qed

lemma cycle_run_config_example:
  "CycleRunConfig_init
     [(conus, surface, FH00_01) \<mapsto>
        [\<lparr>t_row_number = 1, t_level_layer = ''2 m above ground'', t_parameter = ''TMP'',
          t_forecast_valid_template = ''analysis'', t_description = ''Temperature''\<rparr>,
         \<lparr>t_row_number = 2, t_level_layer = ''surface'', t_parameter = ''APCP'',
          t_forecast_valid_template = ''0-1 hour acc'', t_description = ''Precipitation''\<rparr>,
         \<lparr>t_row_number = 3, t_level_layer = ''entire atmosphere'', t_parameter = ''REFC'',
          t_forecast_valid_template = ''3 hour fcst'', t_description = ''Reflectivity''\<rparr>]]
     conus surface FH00_01 =
   Inr [(0, [\<lparr>row_number = 1, level_layer = ''2 m above ground'', parameter = ''TMP'',
               forecast_valid = ''analysis'', description = ''Temperature''\<rparr>,
             \<lparr>row_number = 2, level_layer = ''surface'', parameter = ''APCP'',
               forecast_valid = ''0-0 day acc'', description = ''Precipitation''\<rparr>,
             \<lparr>row_number = 3, level_layer = ''entire atmosphere'', parameter = ''REFC'',
               forecast_valid = ''0 hour fcst'', description = ''Reflectivity''\<rparr>]),
        (1, [\<lparr>row_number = 1, level_layer = ''2 m above ground'', parameter = ''TMP'',
               forecast_valid = ''1 hour fcst'', description = ''Temperature''\<rparr>,
             \<lparr>row_number = 2, level_layer = ''surface'', parameter = ''APCP'',
               forecast_valid = ''0-1 hour acc'', description = ''Precipitation''\<rparr>,
             \<lparr>row_number = 3, level_layer = ''entire atmosphere'', parameter = ''REFC'',
               forecast_valid = ''1 hour fcst'', description = ''Reflectivity''\<rparr>])]"
  by code_simp

theorem cycle_run_config_builds_witness:
  "CycleRunConfig_init
     [(conus, surface, FH00_01) \<mapsto>
        [\<lparr>t_row_number = 1, t_level_layer = ''2 m above ground'', t_parameter = ''TMP'',
          t_forecast_valid_template = ''analysis'', t_description = ''Temperature''\<rparr>,
         \<lparr>t_row_number = 2, t_level_layer = ''surface'', t_parameter = ''APCP'',
          t_forecast_valid_template = ''0-1 hour acc'', t_description = ''Precipitation''\<rparr>,
         \<lparr>t_row_number = 3, t_level_layer = ''entire atmosphere'', t_parameter = ''REFC'',
          t_forecast_valid_template = ''3 hour fcst'', t_description = ''Reflectivity''\<rparr>]]
     conus surface FH00_01 =
   Inr [(0, [\<lparr>row_number = 1, level_layer = ''2 m above ground'', parameter = ''TMP'',
               forecast_valid = ''analysis'', description = ''Temperature''\<rparr>,
             \<lparr>row_number = 2, level_layer = ''surface'', parameter = ''APCP'',
               forecast_valid = ''0-0 day acc'', description = ''Precipitation''\<rparr>,
             \<lparr>row_number = 3, level_layer = ''entire atmosphere'', parameter = ''REFC'',
               forecast_valid = ''0 hour fcst'', description = ''Reflectivity''\<rparr>]),
        (1, [\<lparr>row_number = 1, level_layer = ''2 m above ground'', parameter = ''TMP'',
               forecast_valid = ''1 hour fcst'', description = ''Temperature''\<rparr>,
             \<lparr>row_number = 2, level_layer = ''surface'', parameter = ''APCP'',
               forecast_valid = ''0-1 hour acc'', description = ''Precipitation''\<rparr>,
             \<lparr>row_number = 3, level_layer = ''entire atmosphere'', parameter = ''REFC'',
               forecast_valid = ''1 hour fcst'', description = ''Reflectivity''\<rparr>])]"
proof -
  let ?templates =
    "[\<lparr>t_row_number = 1, t_level_layer = ''2 m above ground'', t_parameter = ''TMP'',
       t_forecast_valid_template = ''analysis'', t_description = ''Temperature''\<rparr>,
      \<lparr>t_row_number = 2, t_level_layer = ''surface'', t_parameter = ''APCP'',
       t_forecast_valid_template = ''0-1 hour acc'', t_description = ''Precipitation''\<rparr>,
      \<lparr>t_row_number = 3, t_level_layer = ''entire atmosphere'', t_parameter = ''REFC'',
       t_forecast_valid_template = ''3 hour fcst'', t_description = ''Reflectivity''\<rparr>]"
  let ?registry = "[(conus, surface, FH00_01) \<mapsto> ?templates]"
  have registered: "?registry (conus, surface, FH00_01) = Some ?templates"
    by simp
  have families: "\<forall>t \<in> set ?templates. recognized (t_forecast_valid_template t)"
    using recognized_examples by simp
  from cycle_run_config_builds [of ?registry conus surface FH00_01 ?templates]
    registered families
  obtain inventory
    where "CycleRunConfig_init ?registry conus surface FH00_01 = Inr inventory"
    by blast
  with cycle_run_config_example show ?thesis
    by simp
qed


text \<open>An entry outside the three families makes the construction raise.\<close>

lemma cycle_run_config_unrecognized_example:
  "CycleRunConfig_init
     [(conus, surface, FH00_01) \<mapsto>
        [\<lparr>t_row_number = 1, t_level_layer = ''surface'', t_parameter = ''TMP'',
          t_forecast_valid_template = ''bad one'', t_description = ''Temperature''\<rparr>]]
     conus surface FH00_01 =
   Inl (ValueError ''bad one could not be parsed into a forecast_valid string'')"
  by code_simp

end
